theory Spec2Isabelle
  imports Complex_Main "HOL-Library.Multiset"
begin

section \<open>The shipment model of models/Shipping.js\<close>

text \<open>
  The theory embeds the Mongoose model \<^verbatim>\<open>Shipping\<close>: the schema paths its methods read and
  write, the validators the schema declares on them, the pre-save hook, the instance
  methods and the statistics query. Conventions:

  \<^item> a JavaScript string is a \<open>string\<close> whose characters are the code units below 256
    (ASCII and Latin-1); \<^verbatim>\<open>toLowerCase\<close>, \<^verbatim>\<open>trim\<close> and the class \<^verbatim>\<open>\s\<close> stay inside that range;
  \<^item> a \<^verbatim>\<open>Date\<close> is its number of milliseconds since the epoch; a path that may be unset
    is an \<open>option\<close>, and a \<^verbatim>\<open>Date\<close> that is set is truthy whatever its value;
  \<^item> numbers and dates are exact and unbounded: the rounding of doubles and the range of
    \<^verbatim>\<open>Date\<close> are outside the model;
  \<^item> every \<^verbatim>\<open>new Date()\<close> is one reading of a clock that is threaded through the calls;
  \<^item> a method that ends in \<^verbatim>\<open>this.save()\<close> returns the outcome of the promise together
    with the receiver as it is afterwards, so that the mutations made before a rejected
    save stay visible.
\<close>

subsection \<open>Strings\<close>

text \<open>The characters \<^verbatim>\<open>\s\<close> matches and \<^verbatim>\<open>trim\<close> removes: TAB, LF, VT, FF, CR, space, NBSP.\<close>

definition is_space :: "char \<Rightarrow> bool" where
  "is_space c \<longleftrightarrow>
     c \<in> set [CHR 0x09, CHR 0x0A, CHR 0x0B, CHR 0x0C, CHR 0x0D, CHR '' '', CHR 0xA0]"

definition upper_chars :: string where
  "upper_chars = ''ABCDEFGHIJKLMNOPQRSTUVWXYZ'' @
     [CHR 0xC0, CHR 0xC1, CHR 0xC2, CHR 0xC3, CHR 0xC4, CHR 0xC5, CHR 0xC6, CHR 0xC7,
      CHR 0xC8, CHR 0xC9, CHR 0xCA, CHR 0xCB, CHR 0xCC, CHR 0xCD, CHR 0xCE, CHR 0xCF,
      CHR 0xD0, CHR 0xD1, CHR 0xD2, CHR 0xD3, CHR 0xD4, CHR 0xD5, CHR 0xD6,
      CHR 0xD8, CHR 0xD9, CHR 0xDA, CHR 0xDB, CHR 0xDC, CHR 0xDD, CHR 0xDE]"

definition lower_chars :: string where
  "lower_chars = ''abcdefghijklmnopqrstuvwxyz'' @
     [CHR 0xE0, CHR 0xE1, CHR 0xE2, CHR 0xE3, CHR 0xE4, CHR 0xE5, CHR 0xE6, CHR 0xE7,
      CHR 0xE8, CHR 0xE9, CHR 0xEA, CHR 0xEB, CHR 0xEC, CHR 0xED, CHR 0xEE, CHR 0xEF,
      CHR 0xF0, CHR 0xF1, CHR 0xF2, CHR 0xF3, CHR 0xF4, CHR 0xF5, CHR 0xF6,
      CHR 0xF8, CHR 0xF9, CHR 0xFA, CHR 0xFB, CHR 0xFC, CHR 0xFD, CHR 0xFE]"

definition lower_char :: "char \<Rightarrow> char" where
  "lower_char c = (case map_of (zip upper_chars lower_chars) c of Some l \<Rightarrow> l | None \<Rightarrow> c)"

text \<open>\<^verbatim>\<open>String.prototype.toLowerCase\<close>.\<close>

definition toLowerCase :: "string \<Rightarrow> string" where
  "toLowerCase str = map lower_char str"

text \<open>\<^verbatim>\<open>str.replace(/\s+/g, '_')\<close>: every maximal run of white space becomes one underscore.\<close>

function replace_spaces :: "string \<Rightarrow> string" where
  "replace_spaces [] = []"
| "replace_spaces (c # cs) =
     (if is_space c then CHR ''_'' # replace_spaces (dropWhile is_space cs)
      else c # replace_spaces cs)"
  by pat_completeness auto
termination
  by (relation "measure length") (auto simp: length_dropWhile_le less_Suc_eq_le)

text \<open>\<^verbatim>\<open>String.prototype.trim\<close>, which the schema option \<^verbatim>\<open>trim: true\<close> applies on assignment.\<close>

definition trim :: "string \<Rightarrow> string" where
  "trim str = rev (dropWhile is_space (rev (dropWhile is_space str)))"

subsection \<open>The schema\<close>

type_synonym time = int
type_synonym objectId = nat

record location =
  city :: "string option"
  state :: "string option"
  country :: "string option"
  facility :: "string option"

text \<open>The default \<^verbatim>\<open>location = {}\<close> of the methods.\<close>

definition empty_location :: location where
  "empty_location = \<lparr>city = None, state = None, country = None, facility = None\<rparr>"

record trackingEvent =
  status :: string
  description :: string
  location :: location
  timestamp :: time
  source :: string

text \<open>
  A value of a path of type \<^verbatim>\<open>Number\<close>: Mongoose's cast refuses \<^verbatim>\<open>NaN\<close> and keeps every other
  number, the two infinities included.
\<close>

datatype number = Finite rat | PlusInfinity | MinusInfinity

record timeframe =
  tf_min :: "number option"
  tf_max :: "number option"

record delivery_record =
  receivedBy :: "string option"
  deliveryLocation :: "string option"
  signature :: "string option"
  deliveryPhoto :: "string option"
  deliveryNotes :: "string option"

record return_record =
  isReturned :: bool
  reason :: "string option"
  returnedAt :: "time option"
  returnTrackingNumber :: "string option"

text \<open>
  The shipment document. \<open>tf_min\<close> and \<open>tf_max\<close> are the paths \<^verbatim>\<open>deliveryTimeframe.min\<close>
  and \<^verbatim>\<open>deliveryTimeframe.max\<close>; like \<^verbatim>\<open>delivery\<close> and \<^verbatim>\<open>return\<close>, \<^verbatim>\<open>deliveryTimeframe\<close> is a
  nested path, which a document always holds as an object, whether or not any of its
  members is set. Two fields are Mongoose's
  book-keeping rather than paths: \<open>modified_shippingStatus\<close> is what
  \<^verbatim>\<open>isModified('shippingStatus')\<close> answers, and \<open>otherPathsValid\<close> says whether the paths
  left out here (order reference, addresses, package, cost, insurance, label, notes), which
  no method writes, pass their validators.
\<close>

record shipping =
  sellerID :: objectId
  carrier :: string
  trackingNumber :: string
  trackingUrl :: "string option"
  shippingStatus :: string
  saturdayDelivery :: bool
  shippedAt :: "time option"
  estimatedDeliveryDate :: "time option"
  actualDeliveryDate :: "time option"
  deliveryTimeframe :: timeframe
  trackingEvents :: "trackingEvent list"
  lastTrackingUpdate :: "time option"
  delivery :: delivery_record
  return :: return_record
  modified_shippingStatus :: bool
  otherPathsValid :: bool

definition trackingEvent_status_enum :: "string list" where
  "trackingEvent_status_enum =
     [''label_created'', ''picked_up'', ''in_transit'', ''out_for_delivery'',
      ''delivered'', ''delivery_attempted'', ''exception'', ''returned'',
      ''lost'', ''damaged'']"

definition source_enum :: "string list" where
  "source_enum = [''carrier'', ''api'', ''manual'', ''webhook'']"

definition carrier_enum :: "string list" where
  "carrier_enum =
     [''La Poste'', ''Chronopost'', ''DHL'', ''UPS'', ''FedEx'', ''TNT'', ''Mondial Relay'',
      ''Autre'']"

definition shippingStatus_enum :: "string list" where
  "shippingStatus_enum =
     [''Pending'', ''Processing'', ''Ready to Ship'', ''Shipped'', ''In Transit'',
      ''Out for Delivery'', ''Delivered'', ''Delivery Failed'', ''Returned'', ''Lost'',
      ''Damaged'', ''Cancelled'']"

definition return_reason_enum :: "string list" where
  "return_reason_enum =
     [''delivery_failed'', ''refused_by_recipient'', ''incorrect_address'',
      ''damaged_package'', ''customer_request'', ''other'']"

subsection \<open>Validation\<close>

text \<open>
  The validators of \<^verbatim>\<open>trackingEventSchema\<close>: \<^verbatim>\<open>status\<close> is required and in its enumeration,
  \<^verbatim>\<open>description\<close> is required (Mongoose's required validator rejects the empty string),
  \<^verbatim>\<open>source\<close> is in its enumeration. The required \<^verbatim>\<open>timestamp\<close> is always present here.
\<close>

definition validate_event :: "trackingEvent \<Rightarrow> bool" where
  "validate_event e \<longleftrightarrow>
     status e \<in> set trackingEvent_status_enum \<and>
     description e \<noteq> [] \<and>
     source e \<in> set source_enum"

text \<open>The validator \<^verbatim>\<open>min: 0\<close> of a number that is set.\<close>

definition min_zero :: "number \<Rightarrow> bool" where
  "min_zero m \<longleftrightarrow> (case m of Finite q \<Rightarrow> 0 \<le> q | PlusInfinity \<Rightarrow> True | MinusInfinity \<Rightarrow> False)"

definition validate_timeframe :: "timeframe \<Rightarrow> bool" where
  "validate_timeframe tf \<longleftrightarrow>
     (case tf_min tf of None \<Rightarrow> True | Some m \<Rightarrow> min_zero m) \<and>
     (case tf_max tf of None \<Rightarrow> True | Some m \<Rightarrow> min_zero m)"

text \<open>
  The validators of \<^verbatim>\<open>shippingSchema\<close> on the paths of the model: the enumerations of
  \<^verbatim>\<open>carrier\<close>, \<^verbatim>\<open>shippingStatus\<close> and \<^verbatim>\<open>return.reason\<close>, the required \<^verbatim>\<open>trackingNumber\<close>,
  \<^verbatim>\<open>min: 0\<close> on the time-frame, every tracking event, and \<^verbatim>\<open>maxlength: 500\<close> on
  \<^verbatim>\<open>delivery.deliveryNotes\<close>.
\<close>

definition validate :: "shipping \<Rightarrow> bool" where
  "validate s \<longleftrightarrow>
     carrier s \<in> set carrier_enum \<and>
     trackingNumber s \<noteq> [] \<and>
     shippingStatus s \<in> set shippingStatus_enum \<and>
     validate_timeframe (deliveryTimeframe s) \<and>
     list_all validate_event (trackingEvents s) \<and>
     (case deliveryNotes (delivery s) of None \<Rightarrow> True | Some n \<Rightarrow> length n \<le> 500) \<and>
     (case reason (return s) of None \<Rightarrow> True | Some r \<Rightarrow> r \<in> set return_reason_enum) \<and>
     otherPathsValid s"

subsection \<open>The clock, assignment and save\<close>

text \<open>The clock is the sequence of the readings still to come; \<^verbatim>\<open>new Date()\<close> takes the first.\<close>

type_synonym clock = "nat \<Rightarrow> time"

definition new_Date :: "clock \<Rightarrow> time \<times> clock" where
  "new_Date clk = (clk 0, \<lambda>n. clk (Suc n))"

text \<open>
  \<^verbatim>\<open>this.shippingStatus = v\<close>: Mongoose marks the path modified when the value assigned
  differs from the one held.
\<close>

definition assign_shippingStatus :: "string \<Rightarrow> shipping \<Rightarrow> shipping" where
  "assign_shippingStatus v s =
     s\<lparr>shippingStatus := v,
       modified_shippingStatus := (modified_shippingStatus s \<or> v \<noteq> shippingStatus s)\<rparr>"

text \<open>The hook \<^verbatim>\<open>shippingSchema.pre('save', ...)\<close>, lines 128 to 136.\<close>

definition pre_save :: "shipping \<Rightarrow> clock \<Rightarrow> shipping \<times> clock" where
  "pre_save s clk =
     (let (s1, clk1) =
            (if modified_shippingStatus s \<and> shippingStatus s = ''Shipped'' \<and> shippedAt s = None
             then (let (now, c) = new_Date clk in (s\<lparr>shippedAt := Some now\<rparr>, c))
             else (s, clk))
      in if modified_shippingStatus s1 \<and> shippingStatus s1 = ''Delivered'' \<and>
            actualDeliveryDate s1 = None
         then (let (now, c) = new_Date clk1 in (s1\<lparr>actualDeliveryDate := Some now\<rparr>, c))
         else (s1, clk1))"

datatype error = ValidationError

text \<open>
  \<^verbatim>\<open>this.save()\<close>: Mongoose validates first and rejects with a \<^verbatim>\<open>ValidationError\<close> without
  running the hook or writing; otherwise the hook runs, the document is written, the
  modification marks are cleared and the promise resolves with the document. The write
  itself is taken to succeed. The result is the outcome, the receiver afterwards and the
  clock.
\<close>

definition save :: "shipping \<Rightarrow> clock \<Rightarrow> (error + shipping) \<times> shipping \<times> clock" where
  "save s clk =
     (if \<not> validate s then (Inl ValidationError, s, clk)
      else (let (s1, clk1) = pre_save s clk;
                s2 = s1\<lparr>modified_shippingStatus := False\<rparr>
            in (Inr s2, s2, clk1)))"

subsection \<open>Instance methods\<close>

text \<open>
  The two object literals of the methods hold strings under their own keys, and like every
  object they inherit the members of \<^verbatim>\<open>Object.prototype\<close>: eleven native functions and
  the accessor \<^verbatim>\<open>__proto__\<close>, which reads as \<^verbatim>\<open>Object.prototype\<close> itself. So a lookup
  \<^verbatim>\<open>literal[key]\<close> gives a string, a native function, that object, or \<^verbatim>\<open>undefined\<close>
  (here \<open>None\<close>).
\<close>

datatype jsvalue = Str string | NativeFunction string | ObjectPrototype

definition object_prototype_members :: "(string \<times> jsvalue) list" where
  "object_prototype_members =
     [(''constructor'', NativeFunction ''Object''),
      (''__defineGetter__'', NativeFunction ''__defineGetter__''),
      (''__defineSetter__'', NativeFunction ''__defineSetter__''),
      (''hasOwnProperty'', NativeFunction ''hasOwnProperty''),
      (''__lookupGetter__'', NativeFunction ''__lookupGetter__''),
      (''__lookupSetter__'', NativeFunction ''__lookupSetter__''),
      (''isPrototypeOf'', NativeFunction ''isPrototypeOf''),
      (''propertyIsEnumerable'', NativeFunction ''propertyIsEnumerable''),
      (''toString'', NativeFunction ''toString''),
      (''valueOf'', NativeFunction ''valueOf''),
      (''__proto__'', ObjectPrototype),
      (''toLocaleString'', NativeFunction ''toLocaleString'')]"

definition get_property :: "(string \<times> string) list \<Rightarrow> string \<Rightarrow> jsvalue option" where
  "get_property literal key =
     (case map_of literal key of
        Some v \<Rightarrow> Some (Str v)
      | None \<Rightarrow> map_of object_prototype_members key)"

text \<open>
  Truthiness: of the strings only the empty one is falsy; functions and objects are truthy,
  and \<^verbatim>\<open>undefined\<close> is falsy.
\<close>

definition truthy :: "jsvalue \<Rightarrow> bool" where
  "truthy v \<longleftrightarrow> (case v of Str x \<Rightarrow> x \<noteq> [] | _ \<Rightarrow> True)"

text \<open>
  Assignment to a path of type \<^verbatim>\<open>String\<close> casts the value. A string is kept; a function is
  replaced by what its \<^verbatim>\<open>toString\<close> returns, for a native function the text below (as Node
  prints it); an object with no \<^verbatim>\<open>toString\<close> of its own, as \<^verbatim>\<open>Object.prototype\<close>, fails the
  cast, and then the path keeps the value it had. (The failed cast also makes the next
  validation fail; in this model the document is invalid then anyway, since the token or
  the carrier that led to it is outside its enumeration.) The setter of \<^verbatim>\<open>trim: true\<close> casts
  a value that is not a string, and trims the string.
\<close>

definition native_function_text :: "string \<Rightarrow> string" where
  "native_function_text name = ''function '' @ name @ ''() { [native code] }''"

definition cast_string :: "jsvalue \<Rightarrow> string option" where
  "cast_string v =
     (case v of
        Str x \<Rightarrow> Some x
      | NativeFunction name \<Rightarrow> Some (native_function_text name)
      | ObjectPrototype \<Rightarrow> None)"

text \<open>The object literal \<^verbatim>\<open>statusMapping\<close> of \<^verbatim>\<open>addTrackingEvent\<close>.\<close>

definition statusMapping_table :: "(string \<times> string) list" where
  "statusMapping_table =
     [(''delivered'', ''Delivered''),
      (''out_for_delivery'', ''Out for Delivery''),
      (''in_transit'', ''In Transit''),
      (''picked_up'', ''Shipped''),
      (''exception'', ''Delivery Failed''),
      (''returned'', ''Returned''),
      (''lost'', ''Lost''),
      (''damaged'', ''Damaged'')]"

definition statusMapping :: "string \<Rightarrow> jsvalue option" where
  "statusMapping = get_property statusMapping_table"

text \<open>
  \<^verbatim>\<open>addTrackingEvent(status, description, location = {}, timestamp = null)\<close>. The pushed
  object is cast to a sub-document, which trims the description. Line 184 tests the
  member that the lookup finds, own or inherited, and line 185 assigns it.
\<close>

definition addTrackingEvent ::
  "string \<Rightarrow> string \<Rightarrow> location \<Rightarrow> time option \<Rightarrow> shipping \<Rightarrow> clock \<Rightarrow> shipping \<times> clock" where
  "addTrackingEvent stat descr loc ts s clk =
     (let (t, clk1) = (case ts of Some t \<Rightarrow> (t, clk) | None \<Rightarrow> new_Date clk);
          event = \<lparr>status = stat, description = trim descr, location = loc,
                   timestamp = t, source = ''manual''\<rparr>;
          s1 = s\<lparr>trackingEvents := trackingEvents s @ [event]\<rparr>;
          (now, clk2) = new_Date clk1;
          s2 = s1\<lparr>lastTrackingUpdate := Some now\<rparr>
      in (case statusMapping stat of
            None \<Rightarrow> (s2, clk2)
          | Some member \<Rightarrow>
              if truthy member
              then (case cast_string member of
                      Some v \<Rightarrow> (assign_shippingStatus v s2, clk2)
                    | None \<Rightarrow> (s2, clk2))
              else (s2, clk2)))"

text \<open>\<^verbatim>\<open>updateStatus(newStatus, description = '', location = {})\<close>.\<close>

definition updateStatus ::
  "string \<Rightarrow> string \<Rightarrow> location \<Rightarrow> shipping \<Rightarrow> clock \<Rightarrow> (error + shipping) \<times> shipping \<times> clock" where
  "updateStatus newStatus descr loc s clk =
     (let s1 = assign_shippingStatus newStatus s;
          (s2, clk2) = addTrackingEvent (replace_spaces (toLowerCase newStatus)) descr loc None s1 clk
      in save s2 clk2)"

text \<open>
  \<^verbatim>\<open>generateTrackingUrl()\<close>: the object literal \<^verbatim>\<open>trackingUrls\<close>, with the tracking number
  interpolated. Line 199 assigns the member that the lookup finds, own or inherited, or
  \<^verbatim>\<open>''\<close> when it is falsy. The path \<^verbatim>\<open>trackingUrl\<close> has \<^verbatim>\<open>trim: true\<close>. Line 200 returns what
  the path then holds.
\<close>

definition trackingUrls :: "string \<Rightarrow> (string \<times> string) list" where
  "trackingUrls tn =
     [(''La Poste'', ''https://www.laposte.fr/outils/suivre-vos-envois?code='' @ tn),
      (''Chronopost'', ''https://www.chronopost.fr/tracking-colis?listeNumerosLT='' @ tn),
      (''DHL'',
       ''https://www.dhl.com/fr-fr/home/tracking/tracking-express.html?submit=1&tracking-id='' @ tn),
      (''UPS'', ''https://www.ups.com/track?loc=fr_FR&tracknum='' @ tn),
      (''FedEx'', ''https://www.fedex.com/apps/fedextrack/?tracknumbers='' @ tn),
      (''TNT'',
       ''https://www.tnt.com/express/fr_fr/site/shipping-tools/tracking.html?searchType=con&cons='' @ tn)]"

definition generateTrackingUrl :: "shipping \<Rightarrow> string option \<times> shipping" where
  "generateTrackingUrl s =
     (let v = (case get_property (trackingUrls (trackingNumber s)) (carrier s) of
                 None \<Rightarrow> Str []
               | Some member \<Rightarrow> if truthy member then member else Str []);
          s1 = (case cast_string v of
                  Some url \<Rightarrow> s\<lparr>trackingUrl := Some (trim url)\<rparr>
                | None \<Rightarrow> s)
      in (trackingUrl s1, s1))"

text \<open>
  Calendar arithmetic. The host's time zone is a fixed offset \<open>tz\<close> (local time is UTC plus
  \<open>tz\<close> milliseconds), so that \<^verbatim>\<open>setDate(getDate() + 1)\<close> adds one day of 86400000
  milliseconds; daylight-saving shifts are outside the model. \<^verbatim>\<open>getDay()\<close> is 0 on Sunday
  and 6 on Saturday; the epoch fell on a Thursday.
\<close>

definition DAY :: int where
  "DAY = 86400000"

definition getDay :: "int \<Rightarrow> time \<Rightarrow> int" where
  "getDay tz t = ((t + tz) div DAY + 4) mod 7"

text \<open>The condition of line 215 on the day reached.\<close>

definition counted_day :: "int \<Rightarrow> bool \<Rightarrow> time \<Rightarrow> bool" where
  "counted_day tz sat t \<longleftrightarrow> getDay tz t \<noteq> 0 \<and> (getDay tz t \<noteq> 6 \<or> sat)"

text \<open>The test \<^verbatim>\<open>daysAdded < maxDays\<close> of a whole number against a number.\<close>

definition less_number :: "int \<Rightarrow> number \<Rightarrow> bool" where
  "less_number n m \<longleftrightarrow>
     (case m of Finite q \<Rightarrow> of_int n < q | PlusInfinity \<Rightarrow> True | MinusInfinity \<Rightarrow> False)"

text \<open>
  The loop of lines 212 to 218, on the state \<^verbatim>\<open>(deliveryDate, daysAdded)\<close>. With the bound
  \<^verbatim>\<open>Infinity\<close> it never ends, so the loop is a partial function and \<open>None\<close> stands for not
  returning.
\<close>

partial_function (option) delivery_loop ::
  "int \<Rightarrow> bool \<Rightarrow> number \<Rightarrow> time \<Rightarrow> int \<Rightarrow> time option" where
  "delivery_loop tz sat maxDays deliveryDate daysAdded =
     (if less_number daysAdded maxDays
      then (let next = deliveryDate + DAY
            in if counted_day tz sat next
               then delivery_loop tz sat maxDays next (daysAdded + 1)
               else delivery_loop tz sat maxDays next daysAdded)
      else Some deliveryDate)"

text \<open>
  The same walk under a whole-number bound, as a total function: it ends because at most
  two days in a row are skipped (\<open>skip_days\<close> bounds the days skipped next). The proofs
  show that the loop under a finite bound returns what this walk computes under the least
  whole number not below the bound.
\<close>

definition skip_days :: "bool \<Rightarrow> int \<Rightarrow> nat" where
  "skip_days sat dow = (if dow = 6 then 1 else if dow = 5 \<and> \<not> sat then 2 else 0)"

function delivery_walk :: "int \<Rightarrow> bool \<Rightarrow> int \<Rightarrow> time \<Rightarrow> int \<Rightarrow> time" where
  "delivery_walk tz sat maxDays deliveryDate daysAdded =
     (if daysAdded < maxDays
      then (let next = deliveryDate + DAY
            in if counted_day tz sat next
               then delivery_walk tz sat maxDays next (daysAdded + 1)
               else delivery_walk tz sat maxDays next daysAdded)
      else deliveryDate)"
  by pat_completeness auto
termination
proof (relation "measure (\<lambda>(tz, sat, maxDays, d, n).
          3 * nat (maxDays - n) + skip_days sat (getDay tz d))")
  show "wf (measure (\<lambda>(tz, sat, maxDays, d, n).
          3 * nat (maxDays - n) + skip_days sat (getDay tz d)))"
    by simp
next
  fix tz :: int and sat :: bool and maxDays d n x :: int
  assume a: "n < maxDays" "x = d + DAY" "counted_day tz sat x"
  have "skip_days sat (getDay tz x) \<le> 2"
    by (simp add: skip_days_def)
  moreover have "nat (maxDays - (n + 1)) + 1 = nat (maxDays - n)"
    using a(1) by simp
  ultimately show "((tz, sat, maxDays, x, n + 1), (tz, sat, maxDays, d, n)) \<in>
      measure (\<lambda>(tz, sat, maxDays, d, n). 3 * nat (maxDays - n) + skip_days sat (getDay tz d))"
    by simp
next
  fix tz :: int and sat :: bool and maxDays d n x :: int
  assume a: "n < maxDays" "x = d + DAY" "\<not> counted_day tz sat x"
  have "(d + DAY + tz) div DAY = (d + tz) div DAY + 1"
    by (simp add: DAY_def)
  then have g: "getDay tz x = (getDay tz d + 1) mod 7"
    using a(2) unfolding getDay_def by (simp add: mod_simps)
  have r: "0 \<le> getDay tz d \<and> getDay tz d < 7"
    by (simp add: getDay_def)
  have "skip_days sat (getDay tz x) < skip_days sat (getDay tz d)"
    using a(3) g r unfolding counted_day_def skip_days_def
    by (auto split: if_splits) presburger+
  then show "((tz, sat, maxDays, x, n), (tz, sat, maxDays, d, n)) \<in>
      measure (\<lambda>(tz, sat, maxDays, d, n). 3 * nat (maxDays - n) + skip_days sat (getDay tz d))"
    by simp
qed

text \<open>The walk's equation is unfolded by hand, one iteration at a time.\<close>

declare delivery_walk.simps [simp del]

text \<open>
  What \<^verbatim>\<open>!this.deliveryTimeframe\<close> tests on line 204: the nested path reads as an object,
  and an object is truthy, whatever its members.
\<close>

definition nested_truthy :: "timeframe \<Rightarrow> bool" where
  "nested_truthy tf \<longleftrightarrow> True"

text \<open>
  \<^verbatim>\<open>calculateEstimatedDelivery()\<close>. \<^verbatim>\<open>this.deliveryTimeframe.max || 7\<close> takes 7 when \<^verbatim>\<open>max\<close> is
  unset and when it is 0. The result is \<open>None\<close> when the call does not return, and otherwise
  the value returned and the receiver afterwards.
\<close>

definition calculateEstimatedDelivery ::
  "int \<Rightarrow> shipping \<Rightarrow> (time option \<times> shipping) option" where
  "calculateEstimatedDelivery tz s =
     (case shippedAt s of
        None \<Rightarrow> Some (None, s)
      | Some shippedDate \<Rightarrow>
          if \<not> nested_truthy (deliveryTimeframe s) then Some (None, s)
          else (let maxDays = (case tf_max (deliveryTimeframe s) of
                                 None \<Rightarrow> Finite 7
                               | Some m \<Rightarrow> if m = Finite 0 then Finite 7 else m)
                in (case delivery_loop tz (saturdayDelivery s) maxDays shippedDate 0 of
                      None \<Rightarrow> None
                    | Some deliveryDate \<Rightarrow>
                        Some (Some deliveryDate,
                              s\<lparr>estimatedDeliveryDate := Some deliveryDate\<rparr>))))"

text \<open>
  \<^verbatim>\<open>getLatestTrackingEvent()\<close>. \<^verbatim>\<open>Array.prototype.sort\<close> sorts in place and is stable; under
  the comparator \<^verbatim>\<open>b.timestamp - a.timestamp\<close> an event comes earlier when its timestamp is
  larger, which is the stable sort by the negated timestamp.
\<close>

definition getLatestTrackingEvent :: "shipping \<Rightarrow> trackingEvent option \<times> shipping" where
  "getLatestTrackingEvent s =
     (if length (trackingEvents s) = 0 then (None, s)
      else (let sorted_events = sort_key (\<lambda>e. - timestamp e) (trackingEvents s);
                s1 = s\<lparr>trackingEvents := sorted_events\<rparr>
            in (case sorted_events of
                  [] \<Rightarrow> (None, s1)
                | e # _ \<Rightarrow> (Some e, s1))))"

text \<open>
  \<^verbatim>\<open>markAsDelivered(receivedBy = '', deliveryLocation = '', signature = '', photo = '', notes = '')\<close>.
  The description is the template of line 238, with its two accented letters as Latin-1
  code units; \<^verbatim>\<open>receivedBy\<close> and \<^verbatim>\<open>deliveryLocation\<close> are paths with \<^verbatim>\<open>trim: true\<close>.
\<close>

definition markAsDelivered ::
  "string \<Rightarrow> string \<Rightarrow> string \<Rightarrow> string \<Rightarrow> string \<Rightarrow> shipping \<Rightarrow> clock
     \<Rightarrow> (error + shipping) \<times> shipping \<times> clock" where
  "markAsDelivered rcv dloc sig photo notes s clk =
     (let s1 = assign_shippingStatus ''Delivered'' s;
          (now, clk1) = new_Date clk;
          s2 = s1\<lparr>actualDeliveryDate := Some now\<rparr>;
          s3 = s2\<lparr>delivery := \<lparr>receivedBy = Some (trim rcv), deliveryLocation = Some (trim dloc),
                               signature = Some sig, deliveryPhoto = Some photo,
                               deliveryNotes = Some notes\<rparr>\<rparr>;
          descr = ''Colis livr'' @ [CHR 0xE9] @
                  (if rcv \<noteq> [] then '' '' @ [CHR 0xE0] @ '' '' @ rcv else []);
          (t, clk2) = new_Date clk1;
          (s4, clk3) = addTrackingEvent ''delivered'' descr empty_location (Some t) s3 clk2
      in save s4 clk3)"

text \<open>\<^verbatim>\<open>processReturn(reason, returnTrackingNumber = '')\<close>.\<close>

definition processReturn ::
  "string \<Rightarrow> string \<Rightarrow> shipping \<Rightarrow> clock \<Rightarrow> (error + shipping) \<times> shipping \<times> clock" where
  "processReturn rsn rtn s clk =
     (let (now, clk1) = new_Date clk;
          s1 = s\<lparr>return := \<lparr>isReturned = True, reason = Some rsn, returnedAt = Some now,
                             returnTrackingNumber = Some rtn\<rparr>\<rparr>;
          s2 = assign_shippingStatus ''Returned'' s1;
          descr = ''Colis retourn'' @ [CHR 0xE9] @ '' - Raison: '' @ rsn;
          (t, clk2) = new_Date clk1;
          (s3, clk3) = addTrackingEvent ''returned'' descr empty_location (Some t) s2 clk2
      in save s3 clk3)"

subsection \<open>The statistics query\<close>

text \<open>
  \<^verbatim>\<open>getShippingStats(sellerId = null, startDate = null, endDate = null)\<close> over the collection,
  a list of documents. The seller is given as a well-formed \<^verbatim>\<open>ObjectId\<close> and the dates as
  \<^verbatim>\<open>Date\<close>s, so an argument that is present is truthy. The division by 86400000 and the
  average are exact rationals here, where MongoDB computes them in double precision.
\<close>

definition match_stage :: "objectId option \<Rightarrow> time option \<Rightarrow> time option \<Rightarrow> shipping \<Rightarrow> bool" where
  "match_stage sellerId startDate endDate d \<longleftrightarrow>
     (case sellerId of None \<Rightarrow> True | Some i \<Rightarrow> sellerID d = i) \<and>
     (if startDate \<noteq> None \<or> endDate \<noteq> None
      then (case shippedAt d of
              None \<Rightarrow> False
            | Some t \<Rightarrow>
                (case startDate of None \<Rightarrow> True | Some a \<Rightarrow> a \<le> t) \<and>
                (case endDate of None \<Rightarrow> True | Some b \<Rightarrow> t \<le> b))
      else True)"

text \<open>The accumulators of the \<^verbatim>\<open>$group\<close> stage; \<^verbatim>\<open>$avg\<close> keeps a sum and a count.\<close>

record group_acc =
  acc_total :: nat
  acc_delivered :: nat
  acc_inTransit :: nat
  acc_failed :: nat
  acc_avg_sum :: rat
  acc_avg_count :: nat
  acc_carriers :: "string list"

definition group_init :: group_acc where
  "group_init = \<lparr>acc_total = 0, acc_delivered = 0, acc_inTransit = 0, acc_failed = 0,
                  acc_avg_sum = 0, acc_avg_count = 0, acc_carriers = []\<rparr>"

text \<open>One document enters the group. \<^verbatim>\<open>$avg\<close> ignores the \<^verbatim>\<open>null\<close> of the \<^verbatim>\<open>$cond\<close>.\<close>

definition group_step :: "shipping \<Rightarrow> group_acc \<Rightarrow> group_acc" where
  "group_step d a =
     (let a1 = a\<lparr>acc_total := acc_total a + 1,
                 acc_delivered :=
                   acc_delivered a + (if shippingStatus d = ''Delivered'' then 1 else 0),
                 acc_inTransit :=
                   acc_inTransit a +
                   (if shippingStatus d \<in> set [''Shipped'', ''In Transit'', ''Out for Delivery'']
                    then 1 else 0),
                 acc_failed :=
                   acc_failed a + (if shippingStatus d = ''Delivery Failed'' then 1 else 0),
                 acc_carriers := acc_carriers a @ [carrier d]\<rparr>
      in (case (shippedAt d, actualDeliveryDate d) of
            (Some sh, Some ad) \<Rightarrow>
              a1\<lparr>acc_avg_sum := acc_avg_sum a + of_int (ad - sh) / 86400000,
                 acc_avg_count := acc_avg_count a + 1\<rparr>
          | _ \<Rightarrow> a1))"

record stats =
  totalShipments :: nat
  deliveredCount :: nat
  inTransitCount :: nat
  failedCount :: nat
  averageDeliveryDays :: "rat option"
  carrierBreakdown :: "string list"

text \<open>The group's output document; \<^verbatim>\<open>$avg\<close> is \<^verbatim>\<open>null\<close> when it saw no number.\<close>

definition group_result :: "group_acc \<Rightarrow> stats" where
  "group_result a =
     \<lparr>totalShipments = acc_total a, deliveredCount = acc_delivered a,
      inTransitCount = acc_inTransit a, failedCount = acc_failed a,
      averageDeliveryDays =
        (if acc_avg_count a = 0 then None else Some (acc_avg_sum a / of_nat (acc_avg_count a))),
      carrierBreakdown = acc_carriers a\<rparr>"

text \<open>The pipeline: \<^verbatim>\<open>$group\<close> with \<^verbatim>\<open>_id: null\<close> yields no document on an empty input.\<close>

definition aggregate ::
  "shipping list \<Rightarrow> objectId option \<Rightarrow> time option \<Rightarrow> time option \<Rightarrow> stats list" where
  "aggregate coll sellerId startDate endDate =
     (let docs = filter (match_stage sellerId startDate endDate) coll
      in if docs = [] then [] else [group_result (fold group_step docs group_init)])"

definition getShippingStats ::
  "shipping list \<Rightarrow> objectId option \<Rightarrow> time option \<Rightarrow> time option \<Rightarrow> stats" where
  "getShippingStats coll sellerId startDate endDate =
     (case aggregate coll sellerId startDate endDate of
        st # _ \<Rightarrow> st
      | [] \<Rightarrow> \<lparr>totalShipments = 0, deliveredCount = 0, inTransitCount = 0, failedCount = 0,
                averageDeliveryDays = Some 0, carrierBreakdown = []\<rparr>)"

subsection \<open>Sequences of calls\<close>

text \<open>
  What a caller can do to one document with this model: assign the status, save, or call
  a method. \<open>exec\<close> gives the receiver and the clock after one call, or \<open>None\<close> when the
  call does not return; \<open>run\<close> gives them as they stand after a sequence of calls, which
  stops at a call that does not return.
\<close>

datatype call =
    Assign_shippingStatus string
  | Save
  | UpdateStatus string string location
  | AddTrackingEvent string string location "time option"
  | GenerateTrackingUrl
  | CalculateEstimatedDelivery
  | GetLatestTrackingEvent
  | MarkAsDelivered string string string string string
  | ProcessReturn string string

fun exec :: "int \<Rightarrow> call \<Rightarrow> shipping \<times> clock \<Rightarrow> (shipping \<times> clock) option" where
  "exec tz (Assign_shippingStatus v) (s, clk) = Some (assign_shippingStatus v s, clk)"
| "exec tz Save (s, clk) = Some (snd (save s clk))"
| "exec tz (UpdateStatus newStatus descr loc) (s, clk) =
     Some (snd (updateStatus newStatus descr loc s clk))"
| "exec tz (AddTrackingEvent stat descr loc ts) (s, clk) =
     Some (addTrackingEvent stat descr loc ts s clk)"
| "exec tz GenerateTrackingUrl (s, clk) = Some (snd (generateTrackingUrl s), clk)"
| "exec tz CalculateEstimatedDelivery (s, clk) =
     (case calculateEstimatedDelivery tz s of
        None \<Rightarrow> None
      | Some (r, s1) \<Rightarrow> Some (s1, clk))"
| "exec tz GetLatestTrackingEvent (s, clk) = Some (snd (getLatestTrackingEvent s), clk)"
| "exec tz (MarkAsDelivered rcv dloc sig photo notes) (s, clk) =
     Some (snd (markAsDelivered rcv dloc sig photo notes s clk))"
| "exec tz (ProcessReturn rsn rtn) (s, clk) = Some (snd (processReturn rsn rtn s clk))"

fun run :: "int \<Rightarrow> call list \<Rightarrow> shipping \<times> clock \<Rightarrow> shipping \<times> clock" where
  "run tz [] sc = sc"
| "run tz (c # calls) sc =
     (case exec tz c sc of
        None \<Rightarrow> sc
      | Some sc1 \<Rightarrow> run tz calls sc1)"

subsection \<open>A shipment and a clock to evaluate on\<close>

text \<open>A valid pending shipment with no history, and a clock that ticks once per reading.\<close>

definition pending_shipment :: shipping where
  "pending_shipment =
     \<lparr>sellerID = 1, carrier = ''Autre'', trackingNumber = ''AB123'', trackingUrl = None,
      shippingStatus = ''Pending'', saturdayDelivery = False, shippedAt = None,
      estimatedDeliveryDate = None, actualDeliveryDate = None,
      deliveryTimeframe = \<lparr>tf_min = None, tf_max = None\<rparr>,
      trackingEvents = [], lastTrackingUpdate = None,
      delivery = \<lparr>receivedBy = None, deliveryLocation = None, signature = None,
                   deliveryPhoto = None, deliveryNotes = None\<rparr>,
      return = \<lparr>isReturned = False, reason = None, returnedAt = None,
                 returnTrackingNumber = None\<rparr>,
      modified_shippingStatus = False, otherPathsValid = True\<rparr>"

definition ticking :: clock where
  "ticking n = 1000 + int n"

text \<open>A shipment whose three events are not stored in the order of their timestamps.\<close>

definition three_events :: shipping where
  "three_events = pending_shipment
     \<lparr>trackingEvents :=
        [\<lparr>status = ''label_created'', description = ''a'', location = empty_location,
          timestamp = 10, source = ''manual''\<rparr>,
         \<lparr>status = ''in_transit'', description = ''c'', location = empty_location,
          timestamp = 30, source = ''carrier''\<rparr>,
         \<lparr>status = ''picked_up'', description = ''b'', location = empty_location,
          timestamp = 20, source = ''api''\<rparr>]\<rparr>"

subsection \<open>The words of the claims about the statistics\<close>

text \<open>
  The in-transit statuses, the records that have both dates, and the delivery duration of
  such a record in days, as the claim on \<^verbatim>\<open>getShippingStats\<close> names them.
\<close>

definition has_both_dates :: "shipping \<Rightarrow> bool" where
  "has_both_dates d \<longleftrightarrow> shippedAt d \<noteq> None \<and> actualDeliveryDate d \<noteq> None"

definition delivery_days :: "shipping \<Rightarrow> rat" where
  "delivery_days d = of_int (the (actualDeliveryDate d) - the (shippedAt d)) / 86400000"

definition in_transit_status :: "string \<Rightarrow> bool" where
  "in_transit_status st \<longleftrightarrow> st = ''Shipped'' \<or> st = ''In Transit'' \<or> st = ''Out for Delivery''"

text \<open>A collection of three shipments, two of them of seller 2, one of them delivered in two days.\<close>

definition small_collection :: "shipping list" where
  "small_collection =
     [pending_shipment,
      pending_shipment\<lparr>sellerID := 2, carrier := ''DHL'', shippingStatus := ''Delivered'',
                        shippedAt := Some 0, actualDeliveryDate := Some 172800000\<rparr>,
      pending_shipment\<lparr>sellerID := 2, carrier := ''DHL'', shippingStatus := ''In Transit'',
                        shippedAt := Some 86400000\<rparr>]"

subsection \<open>The events of the two closing methods\<close>

text \<open>The event \<^verbatim>\<open>processReturn\<close> appends, for a reason and the timestamp it read.\<close>

definition returned_event :: "string \<Rightarrow> time \<Rightarrow> trackingEvent" where
  "returned_event rsn t =
     \<lparr>status = ''returned'',
      description = trim (''Colis retourn'' @ [CHR 0xE9] @ '' - Raison: '' @ rsn),
      location = empty_location, timestamp = t, source = ''manual''\<rparr>"

text \<open>The event \<^verbatim>\<open>markAsDelivered\<close> appends, for a receiver and the timestamp it read.\<close>

definition delivered_event :: "string \<Rightarrow> time \<Rightarrow> trackingEvent" where
  "delivered_event rcv t =
     \<lparr>status = ''delivered'',
      description = trim (''Colis livr'' @ [CHR 0xE9] @
                          (if rcv \<noteq> [] then '' '' @ [CHR 0xE0] @ '' '' @ rcv else [])),
      location = empty_location, timestamp = t, source = ''manual''\<rparr>"


text \<open>
  The pending shipment after the carrier's pick-up event, not yet saved; and four later
  calls that take it to In Transit and back to Shipped, saving each time.
\<close>

definition picked_up :: shipping where
  "picked_up = fst (addTrackingEvent ''picked_up'' ''Pris en charge'' empty_location (Some 5)
                      pending_shipment ticking)"

definition later_calls :: "call list" where
  "later_calls =
     [AddTrackingEvent ''in_transit'' ''En transit'' empty_location None, Save,
      AddTrackingEvent ''picked_up'' ''Pris en charge'' empty_location None, Save]"

subsection \<open>The words of the claims about the estimate\<close>

text \<open>
  \<open>days_after t k\<close> are the \<open>k\<close> calendar days that follow \<open>t\<close>, at the same time of day.
  \<open>reached_by_counting tz sat t n r\<close> says that \<open>r\<close> is the date reached from \<open>t\<close> by
  advancing one day at a time until \<open>n\<close> days that count have been passed: \<open>r\<close> is a whole
  number of days after \<open>t\<close>, exactly \<open>n\<close> of the days passed count, and the last day passed
  counts (so the walk did not go on after the \<open>n\<close>-th).
\<close>

definition days_after :: "time \<Rightarrow> nat \<Rightarrow> time list" where
  "days_after t k = map (\<lambda>i. t + int i * DAY) [1..<Suc k]"

definition reached_by_counting :: "int \<Rightarrow> bool \<Rightarrow> time \<Rightarrow> nat \<Rightarrow> time \<Rightarrow> bool" where
  "reached_by_counting tz sat t n r \<longleftrightarrow>
     t \<le> r \<and> (r - t) mod DAY = 0 \<and>
     (let k = nat ((r - t) div DAY)
      in length (filter (counted_day tz sat) (days_after t k)) = n \<and>
         (k = 0 \<or> counted_day tz sat r))"

text \<open>
  Monday 1 January 2024, 10:00 UTC; a shipment shipped then with a time-frame of 2 to 5
  days, one whose time-frame has the maximum 0, one whose time-frame has the maximum
  \<^verbatim>\<open>Infinity\<close>, and one with no time-frame.
\<close>

definition monday :: time where
  "monday = 1704103200000"


definition zero_max_shipment :: shipping where
  "zero_max_shipment =
     pending_shipment\<lparr>shippedAt := Some monday,
                       deliveryTimeframe := \<lparr>tf_min = None, tf_max = Some (Finite 0)\<rparr>\<rparr>"


definition no_timeframe_shipment :: shipping where
  "no_timeframe_shipment = pending_shipment\<lparr>shippedAt := Some monday\<rparr>"

section \<open>Facts shared by the proofs\<close>

lemma validate_pending: "validate pending_shipment"
  by (simp add: validate_def pending_shipment_def carrier_enum_def shippingStatus_enum_def
      validate_timeframe_def)

lemma addTrackingEvent_events:
  "trackingEvents (fst (addTrackingEvent stat descr loc ts s clk)) =
     trackingEvents s @
       [\<lparr>status = stat, description = trim descr, location = loc,
         timestamp = (case ts of Some t \<Rightarrow> t | None \<Rightarrow> clk 0), source = ''manual''\<rparr>]"
  by (simp add: addTrackingEvent_def new_Date_def assign_shippingStatus_def Let_def
      split: option.splits prod.splits)

lemma save_invalid: "\<not> validate s \<Longrightarrow> save s clk = (Inl ValidationError, s, clk)"
  by (simp add: save_def)

lemma validate_events: "validate s \<Longrightarrow> list_all validate_event (trackingEvents s)"
  by (simp add: validate_def)




lemma save_receiver_fields:
  "return (fst (snd (save s clk))) = return s"
  "shippingStatus (fst (snd (save s clk))) = shippingStatus s"
  "trackingEvents (fst (snd (save s clk))) = trackingEvents s"
  "delivery (fst (snd (save s clk))) = delivery s"
  by (simp_all add: save_def pre_save_def new_Date_def Let_def split: prod.splits)


lemma save_valid_outcome:
  "validate s \<Longrightarrow> fst (save s clk) = Inr (fst (snd (save s clk)))"
  by (simp add: save_def Let_def split: prod.splits)

lemma statusMapping_keys:
  "statusMapping ''delivered'' = Some (Str ''Delivered'')"
  "statusMapping ''out_for_delivery'' = Some (Str ''Out for Delivery'')"
  "statusMapping ''in_transit'' = Some (Str ''In Transit'')"
  "statusMapping ''picked_up'' = Some (Str ''Shipped'')"
  "statusMapping ''exception'' = Some (Str ''Delivery Failed'')"
  "statusMapping ''returned'' = Some (Str ''Returned'')"
  "statusMapping ''lost'' = Some (Str ''Lost'')"
  "statusMapping ''damaged'' = Some (Str ''Damaged'')"
  by (simp_all add: statusMapping_def get_property_def statusMapping_table_def)

lemma statusMapping_other:
  "stat \<notin> set [''delivered'', ''out_for_delivery'', ''in_transit'', ''picked_up'',
                 ''exception'', ''returned'', ''lost'', ''damaged''] \<Longrightarrow>
   map_of object_prototype_members stat = None \<Longrightarrow>
   statusMapping stat = None"
  by (simp add: statusMapping_def get_property_def statusMapping_table_def)

text \<open>No key of the two object literals is the name of an inherited member.\<close>

lemma inherited_names_not_keys:
  "list_all (\<lambda>k. map_of statusMapping_table k = None \<and> map_of (trackingUrls []) k = None)
     (map fst object_prototype_members)"
  by code_simp

lemma inherited_not_status_key:
  assumes "map_of object_prototype_members k = Some v"
  shows "map_of statusMapping_table k = None"
proof -
  have "k \<in> set (map fst object_prototype_members)"
    using assms by (metis map_of_eq_None_iff option.distinct(1) set_map)
  then show ?thesis
    using inherited_names_not_keys unfolding list_all_iff by blast
qed

lemma trackingUrls_keys: "map fst (trackingUrls tn) = map fst (trackingUrls [])"
  by (simp add: trackingUrls_def)

lemma inherited_not_carrier_key:
  assumes "map_of object_prototype_members k = Some v"
  shows "map_of (trackingUrls tn) k = None"
proof -
  have "k \<in> set (map fst object_prototype_members)"
    using assms by (metis map_of_eq_None_iff option.distinct(1) set_map)
  then have "map_of (trackingUrls []) k = None"
    using inherited_names_not_keys unfolding list_all_iff by blast
  then have "k \<notin> set (map fst (trackingUrls []))"
    by (simp add: map_of_eq_None_iff)
  then have "k \<notin> set (map fst (trackingUrls tn))"
    using trackingUrls_keys by metis
  then show ?thesis
    by (simp add: map_of_eq_None_iff)
qed

lemma addTrackingEvent_status:
  "shippingStatus (fst (addTrackingEvent stat descr loc ts s clk)) =
     (case statusMapping stat of
        None \<Rightarrow> shippingStatus s
      | Some member \<Rightarrow>
          if truthy member
          then (case cast_string member of Some v \<Rightarrow> v | None \<Rightarrow> shippingStatus s)
          else shippingStatus s)"
  by (simp add: addTrackingEvent_def new_Date_def assign_shippingStatus_def Let_def
      split: option.splits prod.splits)

lemma addTrackingEvent_status_Str:
  "statusMapping stat = Some (Str v) \<Longrightarrow> v \<noteq> [] \<Longrightarrow>
   shippingStatus (fst (addTrackingEvent stat descr loc ts s clk)) = v"
  by (simp add: addTrackingEvent_status truthy_def cast_string_def)

lemma addTrackingEvent_lastTrackingUpdate:
  "lastTrackingUpdate (fst (addTrackingEvent stat descr loc ts s clk)) =
     Some (case ts of Some t \<Rightarrow> clk 0 | None \<Rightarrow> clk 1)"
  by (simp add: addTrackingEvent_def new_Date_def assign_shippingStatus_def Let_def
      split: option.splits prod.splits)

section \<open>updateStatus (C1)\<close>

lemma updateStatus_unfold:
  "updateStatus newStatus descr loc s clk =
     save (fst (addTrackingEvent (replace_spaces (toLowerCase newStatus)) descr loc None
                  (assign_shippingStatus newStatus s) clk))
          (snd (addTrackingEvent (replace_spaces (toLowerCase newStatus)) descr loc None
                  (assign_shippingStatus newStatus s) clk))"
  by (simp add: updateStatus_def split: prod.splits)

lemma updateStatus_bad_event:
  assumes "replace_spaces (toLowerCase newStatus) \<notin> set trackingEvent_status_enum \<or>
           trim descr = []"
  shows "fst (updateStatus newStatus descr loc s clk) = Inl ValidationError"
proof -
  let ?r = "addTrackingEvent (replace_spaces (toLowerCase newStatus)) descr loc None
              (assign_shippingStatus newStatus s) clk"
  have "\<not> list_all validate_event (trackingEvents (fst ?r))"
    using assms by (auto simp: addTrackingEvent_events validate_event_def)
  then have "\<not> validate (fst ?r)"
    using validate_events by blast
  then show ?thesis
    by (simp add: updateStatus_unfold save_invalid)
qed

lemma status_tokens:
  "replace_spaces (toLowerCase ''Pending'') = ''pending''"
  "replace_spaces (toLowerCase ''Processing'') = ''processing''"
  "replace_spaces (toLowerCase ''Ready to Ship'') = ''ready_to_ship''"
  "replace_spaces (toLowerCase ''Shipped'') = ''shipped''"
  "replace_spaces (toLowerCase ''Delivery Failed'') = ''delivery_failed''"
  "replace_spaces (toLowerCase ''Cancelled'') = ''cancelled''"
  by code_simp+

text \<open>
  Claim C1 says that \<^verbatim>\<open>updateStatus\<close> persists and returns the record for every status of the
  twelve-value enumeration, and fails with a \<^verbatim>\<open>ValidationError\<close> otherwise. The code
  does not: for six of the twelve statuses the event token derived from the status
  (lower-cased, runs of white space replaced by underscores) is not in the enumeration of
  tracking-event statuses, so the event appended fails validation and the save is
  rejected, whatever the shipment, the description and the location.
\<close>

theorem updateStatus_rejects_enumerated_status:
  "newStatus \<in> set [''Pending'', ''Processing'', ''Ready to Ship'', ''Shipped'',
                     ''Delivery Failed'', ''Cancelled''] \<Longrightarrow>
   newStatus \<in> set shippingStatus_enum \<and>
   fst (updateStatus newStatus descr loc s clk) = Inl ValidationError"
proof -
  assume a: "newStatus \<in> set [''Pending'', ''Processing'', ''Ready to Ship'', ''Shipped'',
                     ''Delivery Failed'', ''Cancelled'']"
  then have "replace_spaces (toLowerCase newStatus) \<in>
      set [''pending'', ''processing'', ''ready_to_ship'', ''shipped'', ''delivery_failed'',
           ''cancelled'']"
    using status_tokens by auto
  then have "replace_spaces (toLowerCase newStatus) \<notin> set trackingEvent_status_enum"
    by (auto simp: trackingEvent_status_enum_def)
  then have "fst (updateStatus newStatus descr loc s clk) = Inl ValidationError"
    by (simp add: updateStatus_bad_event)
  moreover have "newStatus \<in> set shippingStatus_enum"
    using a by (auto simp: shippingStatus_enum_def)
  ultimately show ?thesis by simp
qed

text \<open>The failing input: a valid pending shipment, marked as shipped with a description.\<close>

theorem updateStatus_rejects_Shipped:
  "validate pending_shipment \<and> ''Shipped'' \<in> set shippingStatus_enum \<and>
   fst (updateStatus ''Shipped'' ''Remis au transporteur'' empty_location pending_shipment ticking)
     = Inl ValidationError"
  using updateStatus_rejects_enumerated_status
          [of "''Shipped''" "''Remis au transporteur''" empty_location pending_shipment ticking]
        validate_pending
  by simp

text \<open>
  What else \<^verbatim>\<open>updateStatus\<close> does. A description that is blank, the default \<^verbatim>\<open>''\<close> included,
  fails the required description of the event, whatever the status. For the six statuses
  whose token is a key of the status mapping, a valid shipment and a description that is not
  blank, the save resolves with the status set and the event appended. And a status that
  is not in the enumeration can still be saved: \<^verbatim>\<open>DELIVERED\<close> gives the token
  \<^verbatim>\<open>delivered\<close>, which the mapping turns into the status Delivered before validation.
\<close>

lemma updateStatus_rejects_blank_description:
  "trim descr = [] \<Longrightarrow> fst (updateStatus newStatus descr loc s clk) = Inl ValidationError"
  by (simp add: updateStatus_bad_event)

lemma mapped_status_tokens:
  "replace_spaces (toLowerCase ''In Transit'') = ''in_transit''"
  "replace_spaces (toLowerCase ''Out for Delivery'') = ''out_for_delivery''"
  "replace_spaces (toLowerCase ''Delivered'') = ''delivered''"
  "replace_spaces (toLowerCase ''Returned'') = ''returned''"
  "replace_spaces (toLowerCase ''Lost'') = ''lost''"
  "replace_spaces (toLowerCase ''Damaged'') = ''damaged''"
  by code_simp+

lemma updateStatus_persists_mapped_status:
  assumes "newStatus \<in> set [''In Transit'', ''Out for Delivery'', ''Delivered'', ''Returned'',
                             ''Lost'', ''Damaged'']"
      and "validate s" and "trim descr \<noteq> []"
  shows "fst (updateStatus newStatus descr loc s clk) =
           Inr (fst (snd (updateStatus newStatus descr loc s clk))) \<and>
         shippingStatus (fst (snd (updateStatus newStatus descr loc s clk))) = newStatus \<and>
         trackingEvents (fst (snd (updateStatus newStatus descr loc s clk))) =
           trackingEvents s @
             [\<lparr>status = replace_spaces (toLowerCase newStatus), description = trim descr,
               location = loc, timestamp = clk 0, source = ''manual''\<rparr>]"
proof -
  let ?tok = "replace_spaces (toLowerCase newStatus)"
  let ?r = "addTrackingEvent ?tok descr loc None (assign_shippingStatus newStatus s) clk"
  have tok: "?tok \<in> set trackingEvent_status_enum \<and> statusMapping ?tok = Some (Str newStatus)"
    using assms(1) mapped_status_tokens statusMapping_keys
    by (auto simp: trackingEvent_status_enum_def)
  have "newStatus \<noteq> []"
    using assms(1) by auto
  then have st: "shippingStatus (fst ?r) = newStatus"
    using tok by (simp add: addTrackingEvent_status_Str)
  have ev: "trackingEvents (fst ?r) =
      trackingEvents s @
        [\<lparr>status = ?tok, description = trim descr, location = loc, timestamp = clk 0,
          source = ''manual''\<rparr>]"
    by (simp add: addTrackingEvent_events assign_shippingStatus_def)
  have rest: "carrier (fst ?r) = carrier s" "trackingNumber (fst ?r) = trackingNumber s"
    "deliveryTimeframe (fst ?r) = deliveryTimeframe s" "delivery (fst ?r) = delivery s"
    "return (fst ?r) = return s" "otherPathsValid (fst ?r) = otherPathsValid s"
    by (simp_all add: addTrackingEvent_def new_Date_def assign_shippingStatus_def Let_def
        split: option.splits)
  have "newStatus \<in> set shippingStatus_enum"
    using assms(1) by (auto simp: shippingStatus_enum_def)
  then have "validate (fst ?r)"
    using assms(2,3) tok
    by (simp add: validate_def st ev rest validate_event_def source_enum_def)
  then have "fst (save (fst ?r) (snd ?r)) = Inr (fst (snd (save (fst ?r) (snd ?r))))"
    by (rule save_valid_outcome)
  then show ?thesis
    by (simp add: updateStatus_unfold save_receiver_fields st ev)
qed

lemma updateStatus_accepts_unlisted_status:
  "''DELIVERED'' \<notin> set shippingStatus_enum \<and>
   map_sum id shippingStatus
     (fst (updateStatus ''DELIVERED'' ''Remis'' empty_location pending_shipment ticking)) =
     Inr ''Delivered''"
  by code_simp


section \<open>addTrackingEvent (C2)\<close>

text \<open>
  What \<^verbatim>\<open>addTrackingEvent\<close> does for every shipment, token, description, location and
  optional timestamp: it appends exactly one event, carrying the token, the timestamp
  given or else the clock's reading, and the source \<^verbatim>\<open>manual\<close>; it sets
  \<^verbatim>\<open>lastTrackingUpdate\<close> to the next reading of the clock; for each of the eight keys of
  the mapping it overwrites the overall status with the mapped value; and for a token that
  is neither a key nor the name of an inherited member it leaves the overall status as it
  was. (The description is stored trimmed.)
\<close>

lemma addTrackingEvent_effect:
  assumes "addTrackingEvent stat descr loc ts s clk = (s', clk')"
  shows "trackingEvents s' =
           trackingEvents s @
             [\<lparr>status = stat, description = trim descr, location = loc,
               timestamp = (case ts of Some t \<Rightarrow> t | None \<Rightarrow> clk 0),
               source = ''manual''\<rparr>] \<and>
         lastTrackingUpdate s' = Some (case ts of Some t \<Rightarrow> clk 0 | None \<Rightarrow> clk 1) \<and>
         (stat = ''delivered'' \<longrightarrow> shippingStatus s' = ''Delivered'') \<and>
         (stat = ''out_for_delivery'' \<longrightarrow> shippingStatus s' = ''Out for Delivery'') \<and>
         (stat = ''in_transit'' \<longrightarrow> shippingStatus s' = ''In Transit'') \<and>
         (stat = ''picked_up'' \<longrightarrow> shippingStatus s' = ''Shipped'') \<and>
         (stat = ''exception'' \<longrightarrow> shippingStatus s' = ''Delivery Failed'') \<and>
         (stat = ''returned'' \<longrightarrow> shippingStatus s' = ''Returned'') \<and>
         (stat = ''lost'' \<longrightarrow> shippingStatus s' = ''Lost'') \<and>
         (stat = ''damaged'' \<longrightarrow> shippingStatus s' = ''Damaged'') \<and>
         (stat \<notin> set [''delivered'', ''out_for_delivery'', ''in_transit'', ''picked_up'',
                        ''exception'', ''returned'', ''lost'', ''damaged''] \<and>
          map_of object_prototype_members stat = None \<longrightarrow>
            shippingStatus s' = shippingStatus s)"
proof -
  have s': "s' = fst (addTrackingEvent stat descr loc ts s clk)"
    using assms by simp
  have ev: "trackingEvents s' =
           trackingEvents s @
             [\<lparr>status = stat, description = trim descr, location = loc,
               timestamp = (case ts of Some t \<Rightarrow> t | None \<Rightarrow> clk 0),
               source = ''manual''\<rparr>]"
    unfolding s' by (rule addTrackingEvent_events)
  have upd: "lastTrackingUpdate s' = Some (case ts of Some t \<Rightarrow> clk 0 | None \<Rightarrow> clk 1)"
    unfolding s' by (rule addTrackingEvent_lastTrackingUpdate)
  have mapped: "statusMapping stat = Some (Str v) \<Longrightarrow> v \<noteq> [] \<Longrightarrow> shippingStatus s' = v" for v
    unfolding s' by (rule addTrackingEvent_status_Str)
  have unmapped: "stat \<notin> set [''delivered'', ''out_for_delivery'', ''in_transit'', ''picked_up'',
                        ''exception'', ''returned'', ''lost'', ''damaged''] \<and>
          map_of object_prototype_members stat = None \<longrightarrow>
            shippingStatus s' = shippingStatus s"
    unfolding s' using statusMapping_other [of stat] by (simp add: addTrackingEvent_status)
  have keys: "(stat = ''delivered'' \<longrightarrow> shippingStatus s' = ''Delivered'')"
         "(stat = ''out_for_delivery'' \<longrightarrow> shippingStatus s' = ''Out for Delivery'')"
         "(stat = ''in_transit'' \<longrightarrow> shippingStatus s' = ''In Transit'')"
         "(stat = ''picked_up'' \<longrightarrow> shippingStatus s' = ''Shipped'')"
         "(stat = ''exception'' \<longrightarrow> shippingStatus s' = ''Delivery Failed'')"
         "(stat = ''returned'' \<longrightarrow> shippingStatus s' = ''Returned'')"
         "(stat = ''lost'' \<longrightarrow> shippingStatus s' = ''Lost'')"
         "(stat = ''damaged'' \<longrightarrow> shippingStatus s' = ''Damaged'')"
    using mapped statusMapping_keys by blast+
  from ev upd keys unmapped show ?thesis
    by blast
qed

text \<open>
  On a pending shipment without history: \<^verbatim>\<open>delivered\<close> makes it Delivered with no call
  of \<^verbatim>\<open>updateStatus\<close>, \<^verbatim>\<open>label_created\<close> leaves it Pending, and each appends one event.
\<close>

lemma addTrackingEvent_effect_examples:
  "shippingStatus (fst (addTrackingEvent ''delivered'' ''Remis'' empty_location None
                          pending_shipment ticking)) = ''Delivered'' \<and>
   shippingStatus (fst (addTrackingEvent ''label_created'' ''Etiquette'' empty_location None
                          pending_shipment ticking)) = ''Pending'' \<and>
   length (trackingEvents (fst (addTrackingEvent ''label_created'' ''Etiquette'' empty_location
                                  None pending_shipment ticking))) = 1 \<and>
   lastTrackingUpdate (fst (addTrackingEvent ''label_created'' ''Etiquette'' empty_location
                              None pending_shipment ticking)) = Some 1001"
  using addTrackingEvent_effect
          [of "''delivered''" "''Remis''" empty_location None pending_shipment ticking,
           OF surjective_pairing]
        addTrackingEvent_effect
          [of "''label_created''" "''Etiquette''" empty_location None pending_shipment ticking,
           OF surjective_pairing]
  by (simp add: pending_shipment_def ticking_def object_prototype_members_def)

text \<open>
  Claim C2 says that for every token outside the mapping the overall status is unchanged.
  The code does not do that for the names that every object inherits from
  \<^verbatim>\<open>Object.prototype\<close>: the lookup of line 184 finds the inherited member, which is
  truthy, and line 185 assigns it. For each of the eleven names whose member is a native
  function, \<^verbatim>\<open>constructor\<close> and \<^verbatim>\<open>toString\<close> among them, the token is no key of the
  mapping, and yet the overall status becomes the text of that function, which is none of
  the twelve statuses, whatever the shipment, the description, the location and the
  timestamp.
\<close>

theorem addTrackingEvent_inherited_member:
  "map_of object_prototype_members stat = Some (NativeFunction f) \<Longrightarrow>
   stat \<notin> set (map fst statusMapping_table) \<and>
   shippingStatus (fst (addTrackingEvent stat descr loc ts s clk)) = native_function_text f \<and>
   native_function_text f \<notin> set shippingStatus_enum"
proof -
  assume a: "map_of object_prototype_members stat = Some (NativeFunction f)"
  have own: "map_of statusMapping_table stat = None"
    using a by (rule inherited_not_status_key)
  then have key: "stat \<notin> set (map fst statusMapping_table)"
    by (simp add: map_of_eq_None_iff)
  have "statusMapping stat = Some (NativeFunction f)"
    using a own by (simp add: statusMapping_def get_property_def)
  then have st: "shippingStatus (fst (addTrackingEvent stat descr loc ts s clk)) =
      native_function_text f"
    by (simp add: addTrackingEvent_status truthy_def cast_string_def)
  have "native_function_text f \<notin> set shippingStatus_enum"
    by (simp add: native_function_text_def shippingStatus_enum_def)
  with key st show ?thesis
    by simp
qed

text \<open>
  The failing input: \<^verbatim>\<open>addTrackingEvent('constructor', 'Colis')\<close> on the pending shipment
  turns its status from Pending into the text of the function \<^verbatim>\<open>Object\<close>.
\<close>

theorem addTrackingEvent_constructor:
  "''constructor'' \<notin> set (map fst statusMapping_table) \<and>
   shippingStatus pending_shipment = ''Pending'' \<and>
   shippingStatus (fst (addTrackingEvent ''constructor'' ''Colis'' empty_location None
                          pending_shipment ticking)) =
     ''function Object() { [native code] }''"
  using addTrackingEvent_inherited_member
          [of "''constructor''" "''Object''" "''Colis''" empty_location None pending_shipment
              ticking]
  by (simp add: object_prototype_members_def native_function_text_def pending_shipment_def)

text \<open>
  The twelfth inherited name, \<^verbatim>\<open>__proto__\<close>, reads as \<^verbatim>\<open>Object.prototype\<close>, which the
  cast to a string refuses: the status keeps its value.
\<close>

lemma addTrackingEvent_proto:
  "shippingStatus (fst (addTrackingEvent ''__proto__'' descr loc ts s clk)) = shippingStatus s"
proof -
  have "statusMapping ''__proto__'' = Some ObjectPrototype"
    by (simp add: statusMapping_def get_property_def statusMapping_table_def
        object_prototype_members_def)
  then show ?thesis
    by (simp add: addTrackingEvent_status truthy_def cast_string_def)
qed

section \<open>generateTrackingUrl (C9)\<close>

lemma trim_no_trailing_space:
  assumes "trim t = t" "t \<noteq> []"
  shows "\<not> is_space (last t)"
proof -
  have "rev t = dropWhile is_space (rev (dropWhile is_space t))"
    using assms(1) unfolding trim_def by (metis rev_rev_ident)
  moreover have "rev t \<noteq> []" using assms(2) by simp
  ultimately have "\<not> is_space (hd (rev t))"
    by (metis hd_dropWhile)
  then show ?thesis
    using assms(2) by (simp add: hd_rev)
qed

lemma dropWhile_rev_last:
  assumes "xs \<noteq> []" "\<not> P (last xs)"
  shows "dropWhile P (rev xs) = rev xs"
  using assms by (cases xs rule: rev_cases) simp_all

lemma trim_append_trimmed:
  assumes "p \<noteq> []" "\<not> is_space (hd p)" "\<not> is_space (last p)" "trim t = t"
  shows "trim (p @ t) = p @ t"
proof -
  have l: "\<not> is_space (last (p @ t))"
  proof (cases "t = []")
    case True
    then show ?thesis using assms(3) by simp
  next
    case False
    then show ?thesis using trim_no_trailing_space [OF assms(4)] by simp
  qed
  have "dropWhile is_space (p @ t) = p @ t"
    using assms(1,2) by (cases p) simp_all
  moreover have "dropWhile is_space (rev (p @ t)) = rev (p @ t)"
    using l assms(1) by (intro dropWhile_rev_last) simp_all
  ultimately show ?thesis
    by (simp add: trim_def)
qed

lemma trim_Nil: "trim [] = []"
  by (simp add: trim_def)

lemma trim_trimmed:
  assumes "p \<noteq> []" "\<not> is_space (hd p)" "\<not> is_space (last p)"
  shows "trim p = p"
  using trim_append_trimmed [OF assms trim_Nil] by simp

lemma trackingUrls_nonempty: "map_of (trackingUrls tn) c = Some u \<Longrightarrow> u \<noteq> []"
  by (auto simp: trackingUrls_def split: if_splits)

text \<open>
  When the carrier is not the name of an inherited member, the lookup is the one among the
  literal's own keys, and the value assigned is a string.
\<close>

lemma generateTrackingUrl_unfold:
  assumes "map_of object_prototype_members (carrier s) = None"
  shows "generateTrackingUrl s =
     (Some (trim (case map_of (trackingUrls (trackingNumber s)) (carrier s) of
                    Some u \<Rightarrow> u | None \<Rightarrow> [])),
      s\<lparr>trackingUrl := Some (trim (case map_of (trackingUrls (trackingNumber s)) (carrier s) of
                                      Some u \<Rightarrow> u | None \<Rightarrow> []))\<rparr>)"
proof (cases "map_of (trackingUrls (trackingNumber s)) (carrier s)")
  case None
  then show ?thesis
    using assms by (simp add: generateTrackingUrl_def get_property_def cast_string_def Let_def)
next
  case (Some u)
  then have "u \<noteq> []"
    by (rule trackingUrls_nonempty)
  then show ?thesis
    using Some by (simp add: generateTrackingUrl_def get_property_def cast_string_def truthy_def Let_def)
qed

text \<open>The carriers with a template are not names of inherited members.\<close>

lemma carriers_not_inherited:
  "list_all (\<lambda>c. map_of object_prototype_members c = None)
     [''La Poste'', ''Chronopost'', ''DHL'', ''UPS'', ''FedEx'', ''TNT'', ''Mondial Relay'',
      ''Autre'']"
  by code_simp

lemma trackingUrls_lookup:
  "map_of (trackingUrls tn) ''La Poste'' =
     Some (''https://www.laposte.fr/outils/suivre-vos-envois?code='' @ tn)"
  "map_of (trackingUrls tn) ''Chronopost'' =
     Some (''https://www.chronopost.fr/tracking-colis?listeNumerosLT='' @ tn)"
  "map_of (trackingUrls tn) ''DHL'' =
     Some (''https://www.dhl.com/fr-fr/home/tracking/tracking-express.html?submit=1&tracking-id='' @ tn)"
  "map_of (trackingUrls tn) ''UPS'' = Some (''https://www.ups.com/track?loc=fr_FR&tracknum='' @ tn)"
  "map_of (trackingUrls tn) ''FedEx'' =
     Some (''https://www.fedex.com/apps/fedextrack/?tracknumbers='' @ tn)"
  "map_of (trackingUrls tn) ''TNT'' =
     Some (''https://www.tnt.com/express/fr_fr/site/shipping-tools/tracking.html?searchType=con&cons='' @ tn)"
  "c \<notin> set [''La Poste'', ''Chronopost'', ''DHL'', ''UPS'', ''FedEx'', ''TNT''] \<Longrightarrow>
     map_of (trackingUrls tn) c = None"
  unfolding trackingUrls_def by simp_all

lemma trim_url:
  assumes "trim tn = tn"
  shows "trim (''https://www.laposte.fr/outils/suivre-vos-envois?code='' @ tn) =
           ''https://www.laposte.fr/outils/suivre-vos-envois?code='' @ tn"
    "trim (''https://www.chronopost.fr/tracking-colis?listeNumerosLT='' @ tn) =
           ''https://www.chronopost.fr/tracking-colis?listeNumerosLT='' @ tn"
    "trim (''https://www.dhl.com/fr-fr/home/tracking/tracking-express.html?submit=1&tracking-id='' @ tn) =
           ''https://www.dhl.com/fr-fr/home/tracking/tracking-express.html?submit=1&tracking-id='' @ tn"
    "trim (''https://www.ups.com/track?loc=fr_FR&tracknum='' @ tn) =
           ''https://www.ups.com/track?loc=fr_FR&tracknum='' @ tn"
    "trim (''https://www.fedex.com/apps/fedextrack/?tracknumbers='' @ tn) =
           ''https://www.fedex.com/apps/fedextrack/?tracknumbers='' @ tn"
    "trim (''https://www.tnt.com/express/fr_fr/site/shipping-tools/tracking.html?searchType=con&cons='' @ tn) =
           ''https://www.tnt.com/express/fr_fr/site/shipping-tools/tracking.html?searchType=con&cons='' @ tn"
  by (rule trim_append_trimmed; simp add: is_space_def assms)+

text \<open>
  What \<^verbatim>\<open>generateTrackingUrl\<close> does for every shipment whose tracking number is stored
  trimmed (the schema trims it on assignment) and whose carrier is not the name of an
  inherited member: it writes into \<^verbatim>\<open>trackingUrl\<close> the value it returns and changes
  nothing else; for each of the six carriers with a template that value is the template
  with the tracking number appended, and for every other carrier, \<^verbatim>\<open>Autre\<close> and
  \<^verbatim>\<open>Mondial Relay\<close> among them, it is the empty string.
\<close>

lemma generateTrackingUrl_effect:
  assumes "trim (trackingNumber s) = trackingNumber s"
      and "map_of object_prototype_members (carrier s) = None"
  shows
    "snd (generateTrackingUrl s) = s\<lparr>trackingUrl := fst (generateTrackingUrl s)\<rparr> \<and>
     (carrier s = ''La Poste'' \<longrightarrow> fst (generateTrackingUrl s) =
        Some (''https://www.laposte.fr/outils/suivre-vos-envois?code='' @ trackingNumber s)) \<and>
     (carrier s = ''Chronopost'' \<longrightarrow> fst (generateTrackingUrl s) =
        Some (''https://www.chronopost.fr/tracking-colis?listeNumerosLT='' @ trackingNumber s)) \<and>
     (carrier s = ''DHL'' \<longrightarrow> fst (generateTrackingUrl s) =
        Some (''https://www.dhl.com/fr-fr/home/tracking/tracking-express.html?submit=1&tracking-id=''
          @ trackingNumber s)) \<and>
     (carrier s = ''UPS'' \<longrightarrow> fst (generateTrackingUrl s) =
        Some (''https://www.ups.com/track?loc=fr_FR&tracknum='' @ trackingNumber s)) \<and>
     (carrier s = ''FedEx'' \<longrightarrow> fst (generateTrackingUrl s) =
        Some (''https://www.fedex.com/apps/fedextrack/?tracknumbers='' @ trackingNumber s)) \<and>
     (carrier s = ''TNT'' \<longrightarrow> fst (generateTrackingUrl s) =
        Some (''https://www.tnt.com/express/fr_fr/site/shipping-tools/tracking.html?searchType=con&cons=''
          @ trackingNumber s)) \<and>
     (carrier s \<notin> set [''La Poste'', ''Chronopost'', ''DHL'', ''UPS'', ''FedEx'', ''TNT''] \<longrightarrow>
        fst (generateTrackingUrl s) = Some [])"
proof -
  note unfold = generateTrackingUrl_unfold [OF assms(2)]
  have frame: "snd (generateTrackingUrl s) = s\<lparr>trackingUrl := fst (generateTrackingUrl s)\<rparr>"
    by (simp add: unfold)
  have url: "fst (generateTrackingUrl s) =
     Some (trim (case map_of (trackingUrls (trackingNumber s)) (carrier s) of
                   Some u \<Rightarrow> u | None \<Rightarrow> []))"
    by (simp add: unfold)
  have c1: "carrier s = ''La Poste'' \<longrightarrow> fst (generateTrackingUrl s) =
        Some (''https://www.laposte.fr/outils/suivre-vos-envois?code='' @ trackingNumber s)"
    by (clarify, simp only: url trackingUrls_lookup(1) option.case trim_url(1) [OF assms(1)])
  have c2: "carrier s = ''Chronopost'' \<longrightarrow> fst (generateTrackingUrl s) =
        Some (''https://www.chronopost.fr/tracking-colis?listeNumerosLT='' @ trackingNumber s)"
    by (clarify, simp only: url trackingUrls_lookup(2) option.case trim_url(2) [OF assms(1)])
  have c3: "carrier s = ''DHL'' \<longrightarrow> fst (generateTrackingUrl s) =
        Some (''https://www.dhl.com/fr-fr/home/tracking/tracking-express.html?submit=1&tracking-id=''
          @ trackingNumber s)"
    by (clarify, simp only: url trackingUrls_lookup(3) option.case trim_url(3) [OF assms(1)])
  have c4: "carrier s = ''UPS'' \<longrightarrow> fst (generateTrackingUrl s) =
        Some (''https://www.ups.com/track?loc=fr_FR&tracknum='' @ trackingNumber s)"
    by (clarify, simp only: url trackingUrls_lookup(4) option.case trim_url(4) [OF assms(1)])
  have c5: "carrier s = ''FedEx'' \<longrightarrow> fst (generateTrackingUrl s) =
        Some (''https://www.fedex.com/apps/fedextrack/?tracknumbers='' @ trackingNumber s)"
    by (clarify, simp only: url trackingUrls_lookup(5) option.case trim_url(5) [OF assms(1)])
  have c6: "carrier s = ''TNT'' \<longrightarrow> fst (generateTrackingUrl s) =
        Some (''https://www.tnt.com/express/fr_fr/site/shipping-tools/tracking.html?searchType=con&cons=''
          @ trackingNumber s)"
    by (clarify, simp only: url trackingUrls_lookup(6) option.case trim_url(6) [OF assms(1)])
  have c7: "carrier s \<notin> set [''La Poste'', ''Chronopost'', ''DHL'', ''UPS'', ''FedEx'', ''TNT''] \<longrightarrow>
        fst (generateTrackingUrl s) = Some []"
    using trackingUrls_lookup(7) [of "carrier s" "trackingNumber s"] by (auto simp: url trim_Nil)
  from frame c1 c2 c3 c4 c5 c6 c7 show ?thesis by blast
qed

text \<open>The shipment of carrier \<^verbatim>\<open>Autre\<close> gets the empty string; given to UPS, the UPS address.\<close>

lemma generateTrackingUrl_effect_examples:
  "carrier pending_shipment = ''Autre'' \<and>
   fst (generateTrackingUrl pending_shipment) = Some [] \<and>
   fst (generateTrackingUrl (pending_shipment\<lparr>carrier := ''UPS''\<rparr>)) =
     Some ''https://www.ups.com/track?loc=fr_FR&tracknum=AB123''"
proof -
  have t: "trim (trackingNumber pending_shipment) = trackingNumber pending_shipment"
    by (simp add: pending_shipment_def trim_def is_space_def)
  have t': "trim (trackingNumber (pending_shipment\<lparr>carrier := ''UPS''\<rparr>)) =
            trackingNumber (pending_shipment\<lparr>carrier := ''UPS''\<rparr>)"
    using t by simp
  have n: "map_of object_prototype_members (carrier pending_shipment) = None"
    using carriers_not_inherited by (simp add: pending_shipment_def)
  have n': "map_of object_prototype_members (carrier (pending_shipment\<lparr>carrier := ''UPS''\<rparr>)) = None"
    using carriers_not_inherited by simp
  show ?thesis
    using generateTrackingUrl_effect [OF t n] generateTrackingUrl_effect [OF t' n']
    by (simp add: pending_shipment_def)
qed

text \<open>
  Claim C9 says that every carrier without a template yields the empty string. The code
  does not do that for a carrier named as a member that every object inherits from
  \<^verbatim>\<open>Object.prototype\<close>: the lookup of line 199 finds the inherited member, which is
  truthy, so the fallback \<^verbatim>\<open>|| ''\<close> is not taken. For each of the eleven names whose
  member is a native function, \<^verbatim>\<open>constructor\<close> and \<^verbatim>\<open>toString\<close> among them, the carrier
  has no template, and yet the call stores and returns the text of that function, which
  is not empty, whatever the rest of the shipment.
\<close>

theorem generateTrackingUrl_inherited_member:
  "map_of object_prototype_members (carrier s) = Some (NativeFunction f) \<Longrightarrow>
   carrier s \<notin> set (map fst (trackingUrls (trackingNumber s))) \<and>
   generateTrackingUrl s =
     (Some (native_function_text f), s\<lparr>trackingUrl := Some (native_function_text f)\<rparr>) \<and>
   native_function_text f \<noteq> []"
proof -
  assume a: "map_of object_prototype_members (carrier s) = Some (NativeFunction f)"
  have own: "map_of (trackingUrls (trackingNumber s)) (carrier s) = None"
    using a by (rule inherited_not_carrier_key)
  then have key: "carrier s \<notin> set (map fst (trackingUrls (trackingNumber s)))"
    by (simp add: map_of_eq_None_iff)
  have t: "trim (native_function_text f) = native_function_text f"
    by (rule trim_trimmed) (simp_all add: native_function_text_def is_space_def)
  have "generateTrackingUrl s =
     (Some (native_function_text f), s\<lparr>trackingUrl := Some (native_function_text f)\<rparr>)"
    using a own t
    by (simp add: generateTrackingUrl_def get_property_def truthy_def cast_string_def Let_def)
  moreover have "native_function_text f \<noteq> []"
    by (simp add: native_function_text_def)
  ultimately show ?thesis
    using key by simp
qed

text \<open>
  The failing input: the pending shipment with its carrier set to \<^verbatim>\<open>constructor\<close>, for
  which there is no template. The call returns and stores the text of the function
  \<^verbatim>\<open>Object\<close>.
\<close>

theorem generateTrackingUrl_constructor:
  "''constructor'' \<notin> set [''La Poste'', ''Chronopost'', ''DHL'', ''UPS'', ''FedEx'', ''TNT''] \<and>
   fst (generateTrackingUrl (pending_shipment\<lparr>carrier := ''constructor''\<rparr>)) =
     Some ''function Object() { [native code] }'' \<and>
   trackingUrl (snd (generateTrackingUrl (pending_shipment\<lparr>carrier := ''constructor''\<rparr>))) =
     Some ''function Object() { [native code] }''"
  using generateTrackingUrl_inherited_member
          [of "pending_shipment\<lparr>carrier := ''constructor''\<rparr>" "''Object''"]
  by (simp add: object_prototype_members_def native_function_text_def)

text \<open>
  A carrier \<^verbatim>\<open>__proto__\<close> reads \<^verbatim>\<open>Object.prototype\<close>, which the cast to a string refuses:
  the path keeps its value, and that is what the call returns.
\<close>

lemma generateTrackingUrl_proto:
  "carrier s = ''__proto__'' \<Longrightarrow> generateTrackingUrl s = (trackingUrl s, s)"
proof -
  assume c: "carrier s = ''__proto__''"
  have "map_of object_prototype_members ''__proto__'' = Some ObjectPrototype"
    by (simp add: object_prototype_members_def)
  moreover from this have "map_of (trackingUrls (trackingNumber s)) ''__proto__'' = None"
    by (rule inherited_not_carrier_key)
  ultimately show ?thesis
    using c by (simp add: generateTrackingUrl_def get_property_def truthy_def cast_string_def Let_def)
qed

section \<open>getLatestTrackingEvent (C7)\<close>

lemma sorted_desc_sort_key:
  "sorted_wrt (\<lambda>a b. timestamp b \<le> timestamp a) (sort_key (\<lambda>e. - timestamp e) evs)"
proof -
  have "sorted (map (\<lambda>e. - timestamp e) (sort_key (\<lambda>e. - timestamp e) evs))"
    by (rule sorted_sort_key)
  then show ?thesis
    by (simp add: sorted_wrt_map)
qed

lemma getLatestTrackingEvent_unfold:
  "trackingEvents s \<noteq> [] \<Longrightarrow>
   getLatestTrackingEvent s =
     (Some (hd (sort_key (\<lambda>e. - timestamp e) (trackingEvents s))),
      s\<lparr>trackingEvents := sort_key (\<lambda>e. - timestamp e) (trackingEvents s)\<rparr>)"
proof -
  assume "trackingEvents s \<noteq> []"
  then have "sort_key (\<lambda>e. - timestamp e) (trackingEvents s) \<noteq> []"
    by (metis length_sort length_0_conv)
  then show ?thesis
    using \<open>trackingEvents s \<noteq> []\<close>
    by (cases "sort_key (\<lambda>e. - timestamp e) (trackingEvents s)")
       (simp_all add: getLatestTrackingEvent_def Let_def)
qed

lemma hd_sorted_desc_max:
  assumes "sorted_wrt (\<lambda>a b. timestamp b \<le> timestamp a) xs" "xs \<noteq> []" "e' \<in> set xs"
  shows "timestamp e' \<le> timestamp (hd xs)"
  using assms by (cases xs) auto

text \<open>
  Claim C7: for every shipment, \<^verbatim>\<open>getLatestTrackingEvent\<close> returns \<^verbatim>\<open>null\<close> on an empty
  event list and leaves the shipment as it is; otherwise it returns one of the events,
  whose timestamp is at least that of every event. Afterwards the stored list is in
  descending order of timestamps, it holds the same events as before (as a multiset),
  and no other field of the shipment has changed.
\<close>

theorem getLatestTrackingEvent_latest:
  "(trackingEvents s = [] \<longrightarrow> getLatestTrackingEvent s = (None, s)) \<and>
   (trackingEvents s \<noteq> [] \<longrightarrow>
      (\<exists>e. fst (getLatestTrackingEvent s) = Some e \<and> e \<in> set (trackingEvents s) \<and>
           (\<forall>e' \<in> set (trackingEvents s). timestamp e' \<le> timestamp e))) \<and>
   sorted_wrt (\<lambda>a b. timestamp b \<le> timestamp a)
     (trackingEvents (snd (getLatestTrackingEvent s))) \<and>
   mset (trackingEvents (snd (getLatestTrackingEvent s))) = mset (trackingEvents s) \<and>
   snd (getLatestTrackingEvent s) =
     s\<lparr>trackingEvents := trackingEvents (snd (getLatestTrackingEvent s))\<rparr>"
proof (cases "trackingEvents s = []")
  case True
  then have "getLatestTrackingEvent s = (None, s)"
    by (simp add: getLatestTrackingEvent_def)
  then show ?thesis
    using True by simp
next
  case False
  let ?xs = "sort_key (\<lambda>e. - timestamp e) (trackingEvents s)"
  have u: "getLatestTrackingEvent s = (Some (hd ?xs), s\<lparr>trackingEvents := ?xs\<rparr>)"
    using False by (rule getLatestTrackingEvent_unfold)
  have ne: "?xs \<noteq> []"
    using False by (metis length_sort length_0_conv)
  have srt: "sorted_wrt (\<lambda>a b. timestamp b \<le> timestamp a) ?xs"
    by (rule sorted_desc_sort_key)
  have mem: "hd ?xs \<in> set (trackingEvents s)"
    using ne by (metis hd_in_set set_sort)
  have mx: "\<forall>e' \<in> set (trackingEvents s). timestamp e' \<le> timestamp (hd ?xs)"
    using hd_sorted_desc_max [OF srt ne] by simp
  have ms: "mset ?xs = mset (trackingEvents s)"
    by simp
  show ?thesis
    using False mem mx srt ms by (simp add: u)
qed

text \<open>Timestamps 10, 30, 20: the event of 30 is returned and the list is stored as 30, 20, 10.\<close>

theorem getLatestTrackingEvent_latest_witness:
  "trackingEvents three_events \<noteq> [] \<and>
   map_option timestamp (fst (getLatestTrackingEvent three_events)) = Some 30 \<and>
   map timestamp (trackingEvents three_events) = [10, 30, 20] \<and>
   map timestamp (trackingEvents (snd (getLatestTrackingEvent three_events))) = [30, 20, 10] \<and>
   getLatestTrackingEvent pending_shipment = (None, pending_shipment)"
  using getLatestTrackingEvent_latest [of three_events]
        getLatestTrackingEvent_latest [of pending_shipment]
  by (simp add: three_events_def getLatestTrackingEvent_def pending_shipment_def Let_def)

section \<open>getShippingStats (C8)\<close>

lemma group_step_counts:
  "acc_total (group_step d a) = acc_total a + 1"
  "acc_delivered (group_step d a) =
     acc_delivered a + (if shippingStatus d = ''Delivered'' then 1 else 0)"
  "acc_inTransit (group_step d a) =
     acc_inTransit a + (if in_transit_status (shippingStatus d) then 1 else 0)"
  "acc_failed (group_step d a) =
     acc_failed a + (if shippingStatus d = ''Delivery Failed'' then 1 else 0)"
  "acc_carriers (group_step d a) = acc_carriers a @ [carrier d]"
  by (simp_all add: group_step_def in_transit_status_def Let_def split: option.splits)

lemma group_step_avg:
  "acc_avg_sum (group_step d a) =
     acc_avg_sum a + (if has_both_dates d then delivery_days d else 0)"
  "acc_avg_count (group_step d a) = acc_avg_count a + (if has_both_dates d then 1 else 0)"
  by (simp_all add: group_step_def has_both_dates_def delivery_days_def Let_def
      split: option.splits)

lemma fold_group_total: "acc_total (fold group_step docs a) = acc_total a + length docs"
  by (induction docs arbitrary: a) (simp_all add: group_step_counts)

lemma fold_group_delivered:
  "acc_delivered (fold group_step docs a) =
     acc_delivered a + length (filter (\<lambda>d. shippingStatus d = ''Delivered'') docs)"
  by (induction docs arbitrary: a) (simp_all add: group_step_counts)

lemma fold_group_inTransit:
  "acc_inTransit (fold group_step docs a) =
     acc_inTransit a + length (filter (\<lambda>d. in_transit_status (shippingStatus d)) docs)"
  by (induction docs arbitrary: a) (simp_all add: group_step_counts)

lemma fold_group_failed:
  "acc_failed (fold group_step docs a) =
     acc_failed a + length (filter (\<lambda>d. shippingStatus d = ''Delivery Failed'') docs)"
  by (induction docs arbitrary: a) (simp_all add: group_step_counts)

lemma fold_group_carriers:
  "acc_carriers (fold group_step docs a) = acc_carriers a @ map carrier docs"
  by (induction docs arbitrary: a) (simp_all add: group_step_counts)

lemma fold_group_avg_sum:
  "acc_avg_sum (fold group_step docs a) =
     acc_avg_sum a + sum_list (map delivery_days (filter has_both_dates docs))"
  by (induction docs arbitrary: a) (simp_all add: group_step_avg)

lemma fold_group_avg_count:
  "acc_avg_count (fold group_step docs a) =
     acc_avg_count a + length (filter has_both_dates docs)"
  by (induction docs arbitrary: a) (simp_all add: group_step_avg)

lemmas fold_group =
  fold_group_total fold_group_delivered fold_group_inTransit fold_group_failed
  fold_group_carriers fold_group_avg_sum fold_group_avg_count

text \<open>
  Claim C8: for all arguments, when no shipment of the collection passes the filter the
  query returns the shape with four zero counts, average 0 and no carrier; when some do,
  it returns their number, the numbers of those that are Delivered, in transit (Shipped,
  In Transit or Out for Delivery) and Delivery Failed, the mean of the delivery durations
  in days over the matched records that have both dates (\<^verbatim>\<open>null\<close> when none has both), and
  the carriers of the matched records in their order, duplicates included.
\<close>

theorem getShippingStats_result:
  "(filter (match_stage sellerId startDate endDate) coll = [] \<longrightarrow>
      getShippingStats coll sellerId startDate endDate =
        \<lparr>totalShipments = 0, deliveredCount = 0, inTransitCount = 0, failedCount = 0,
         averageDeliveryDays = Some 0, carrierBreakdown = []\<rparr>) \<and>
   (filter (match_stage sellerId startDate endDate) coll \<noteq> [] \<longrightarrow>
      (let docs = filter (match_stage sellerId startDate endDate) coll;
           timed = filter has_both_dates docs
       in getShippingStats coll sellerId startDate endDate =
            \<lparr>totalShipments = length docs,
             deliveredCount = length (filter (\<lambda>d. shippingStatus d = ''Delivered'') docs),
             inTransitCount = length (filter (\<lambda>d. in_transit_status (shippingStatus d)) docs),
             failedCount = length (filter (\<lambda>d. shippingStatus d = ''Delivery Failed'') docs),
             averageDeliveryDays =
               (if timed = [] then None
                else Some (sum_list (map delivery_days timed) / of_nat (length timed))),
             carrierBreakdown = map carrier docs\<rparr>))"
proof (cases "filter (match_stage sellerId startDate endDate) coll = []")
  case True
  then show ?thesis
    by (simp add: getShippingStats_def aggregate_def)
next
  case False
  then have "getShippingStats coll sellerId startDate endDate =
      group_result (fold group_step (filter (match_stage sellerId startDate endDate) coll) group_init)"
    by (simp add: getShippingStats_def aggregate_def)
  then show ?thesis
    using False by (simp add: group_result_def fold_group group_init_def Let_def)
qed

text \<open>No shipment of seller 99: the zero shape. No filter: three shipments, mean 2 days.\<close>

theorem getShippingStats_result_witness:
  "filter (match_stage (Some 99) None None) small_collection = [] \<and>
   getShippingStats small_collection (Some 99) None None =
     \<lparr>totalShipments = 0, deliveredCount = 0, inTransitCount = 0, failedCount = 0,
      averageDeliveryDays = Some 0, carrierBreakdown = []\<rparr> \<and>
   filter (match_stage None None None) small_collection \<noteq> [] \<and>
   getShippingStats small_collection None None None =
     \<lparr>totalShipments = 3, deliveredCount = 1, inTransitCount = 1, failedCount = 0,
      averageDeliveryDays = Some 2, carrierBreakdown = [''Autre'', ''DHL'', ''DHL'']\<rparr>"
proof -
  have a: "filter (match_stage (Some 99) None None) small_collection = []"
    by (simp add: match_stage_def small_collection_def pending_shipment_def)
  have b: "filter (match_stage None None None) small_collection = small_collection"
    by (simp add: match_stage_def)
  have c: "small_collection \<noteq> []"
    by (simp add: small_collection_def)
  have z: "getShippingStats small_collection (Some 99) None None =
     \<lparr>totalShipments = 0, deliveredCount = 0, inTransitCount = 0, failedCount = 0,
      averageDeliveryDays = Some 0, carrierBreakdown = []\<rparr>"
    using getShippingStats_result [of "Some 99" None None small_collection] a by blast
  have e1: "length small_collection = 3"
    by (simp add: small_collection_def)
  have e2: "length (filter (\<lambda>d. shippingStatus d = ''Delivered'') small_collection) = 1"
    by (simp add: small_collection_def pending_shipment_def)
  have e3: "length (filter (\<lambda>d. in_transit_status (shippingStatus d)) small_collection) = 1"
    by (simp add: small_collection_def pending_shipment_def in_transit_status_def)
  have e4: "length (filter (\<lambda>d. shippingStatus d = ''Delivery Failed'') small_collection) = 0"
    by (simp add: small_collection_def pending_shipment_def)
  have e5: "map carrier small_collection = [''Autre'', ''DHL'', ''DHL'']"
    by (simp add: small_collection_def pending_shipment_def)
  have e6: "length (filter has_both_dates small_collection) = 1"
            "filter has_both_dates small_collection \<noteq> []"
    by (simp_all add: small_collection_def has_both_dates_def pending_shipment_def)
  have e7: "sum_list (map delivery_days (filter has_both_dates small_collection)) = 2"
    by (simp add: small_collection_def has_both_dates_def pending_shipment_def
        delivery_days_def)
  have r: "getShippingStats small_collection None None None =
     \<lparr>totalShipments = 3, deliveredCount = 1, inTransitCount = 1, failedCount = 0,
      averageDeliveryDays = Some 2, carrierBreakdown = [''Autre'', ''DHL'', ''DHL'']\<rparr>"
    using getShippingStats_result [of None None None small_collection] c
    unfolding b Let_def e1 e2 e3 e4 e5 e6(1) e7 by (simp add: e6(2))
  show ?thesis
    using a z r c by (simp only: b) simp
qed

section \<open>processReturn (C6)\<close>


text \<open>The receiver when \<^verbatim>\<open>processReturn\<close> reaches its \<^verbatim>\<open>save\<close>.\<close>

lemma processReturn_unfold:
  "processReturn rsn rtn s clk =
     save (s\<lparr>return := \<lparr>isReturned = True, reason = Some rsn, returnedAt = Some (clk 0),
                          returnTrackingNumber = Some rtn\<rparr>,
             trackingEvents := trackingEvents s @ [returned_event rsn (clk 1)],
             lastTrackingUpdate := Some (clk 2),
             shippingStatus := ''Returned'',
             modified_shippingStatus :=
               (modified_shippingStatus s \<or> ''Returned'' \<noteq> shippingStatus s)\<rparr>)
          (\<lambda>n. clk (Suc (Suc (Suc n))))"
  by (auto simp: processReturn_def addTrackingEvent_def new_Date_def assign_shippingStatus_def
      Let_def statusMapping_keys truthy_def cast_string_def returned_event_def numeral_2_eq_2)



section \<open>actualDeliveryDate: the hook and markAsDelivered (C4)\<close>


lemma markAsDelivered_unfold:
  "markAsDelivered rcv dloc sig photo notes s clk =
     save (s\<lparr>actualDeliveryDate := Some (clk 0),
             delivery := \<lparr>receivedBy = Some (trim rcv), deliveryLocation = Some (trim dloc),
                           signature = Some sig, deliveryPhoto = Some photo,
                           deliveryNotes = Some notes\<rparr>,
             trackingEvents := trackingEvents s @ [delivered_event rcv (clk 1)],
             lastTrackingUpdate := Some (clk 2),
             shippingStatus := ''Delivered'',
             modified_shippingStatus :=
               (modified_shippingStatus s \<or> ''Delivered'' \<noteq> shippingStatus s)\<rparr>)
          (\<lambda>n. clk (Suc (Suc (Suc n))))"
  by (simp add: markAsDelivered_def addTrackingEvent_def new_Date_def assign_shippingStatus_def
      Let_def statusMapping_keys truthy_def cast_string_def delivered_event_def numeral_2_eq_2)




section \<open>shippedAt is set once (C5)\<close>

lemma save_shippedAt:
  "shippedAt (fst (snd (save s clk))) =
     (if validate s \<and> modified_shippingStatus s \<and> shippingStatus s = ''Shipped'' \<and>
         shippedAt s = None
      then Some (clk 0) else shippedAt s)"
  by (simp add: save_def pre_save_def new_Date_def Let_def)

lemma addTrackingEvent_shippedAt:
  "shippedAt (fst (addTrackingEvent stat descr loc ts s clk)) = shippedAt s"
  by (simp add: addTrackingEvent_def new_Date_def assign_shippingStatus_def Let_def
      split: option.splits prod.splits)

lemma exec_keeps_shippedAt:
  assumes "shippedAt s = Some t" and "exec tz c (s, clk) = Some sc"
  shows "shippedAt (fst sc) = Some t"
proof (cases c)
  case (Assign_shippingStatus v)
  then show ?thesis using assms by (auto simp: assign_shippingStatus_def)
next
  case Save
  then show ?thesis using assms by (auto simp: save_shippedAt)
next
  case (UpdateStatus newStatus descr loc)
  then show ?thesis
    using assms
    by (auto simp: updateStatus_unfold save_shippedAt addTrackingEvent_shippedAt
        assign_shippingStatus_def)
next
  case (AddTrackingEvent stat descr loc ts)
  then show ?thesis using assms by (auto simp: addTrackingEvent_shippedAt)
next
  case GenerateTrackingUrl
  then show ?thesis
    using assms by (auto simp: generateTrackingUrl_def Let_def split: option.splits)
next
  case CalculateEstimatedDelivery
  then show ?thesis
    using assms
    by (auto simp: calculateEstimatedDelivery_def Let_def split: option.splits if_splits)
next
  case GetLatestTrackingEvent
  then show ?thesis
    using assms by (auto simp: getLatestTrackingEvent_def Let_def split: list.splits)
next
  case (MarkAsDelivered rcv dloc sig photo nts)
  then show ?thesis
    using assms by (auto simp: markAsDelivered_unfold save_shippedAt)
next
  case (ProcessReturn rsn rtn)
  then show ?thesis
    using assms by (auto simp: processReturn_unfold save_shippedAt)
qed

lemma run_keeps_shippedAt:
  "shippedAt s = Some t \<Longrightarrow> shippedAt (fst (run tz calls (s, clk))) = Some t"
proof (induction calls arbitrary: s clk)
  case Nil
  then show ?case by simp
next
  case (Cons c calls)
  show ?case
  proof (cases "exec tz c (s, clk)")
    case None
    then show ?thesis
      using Cons.prems by simp
  next
    case (Some sc)
    obtain s' clk' where sc: "sc = (s', clk')"
      by (cases sc)
    have "shippedAt s' = Some t"
      using exec_keeps_shippedAt [OF Cons.prems Some] sc by simp
    then have "shippedAt (fst (run tz calls (s', clk'))) = Some t"
      by (rule Cons.IH)
    then show ?thesis
      using Some sc by simp
  qed
qed

text \<open>
  Claim C5: a save of a valid shipment whose status was modified and is Shipped, with no
  ship date yet, resolves with the ship date set to the clock's reading; and once the ship
  date holds a value, no sequence of status assignments, saves and method calls changes
  it, whatever the arguments and the clock.
\<close>

theorem shippedAt_set_once:
  "(validate s \<and> modified_shippingStatus s \<and> shippingStatus s = ''Shipped'' \<and>
    shippedAt s = None \<longrightarrow>
      fst (save s clk) = Inr (fst (snd (save s clk))) \<and>
      shippedAt (fst (snd (save s clk))) = Some (clk 0)) \<and>
   (shippedAt s = Some t \<longrightarrow> shippedAt (fst (run tz calls (s, clk))) = Some t)"
  using run_keeps_shippedAt [of s t tz calls clk]
  by (simp add: save_shippedAt save_valid_outcome)

lemma picked_up_eval:
  "picked_up = pending_shipment
     \<lparr>trackingEvents := [\<lparr>status = ''picked_up'', description = ''Pris en charge'',
                           location = empty_location, timestamp = 5, source = ''manual''\<rparr>],
      lastTrackingUpdate := Some 1000, shippingStatus := ''Shipped'',
      modified_shippingStatus := True\<rparr>"
  by (simp add: picked_up_def addTrackingEvent_def new_Date_def assign_shippingStatus_def Let_def
      statusMapping_keys truthy_def cast_string_def ticking_def trim_def is_space_def
      pending_shipment_def)

lemma validate_picked_up: "validate picked_up"
  using validate_pending
  by (simp add: picked_up_eval validate_def validate_event_def shippingStatus_enum_def
      trackingEvent_status_enum_def source_enum_def)

lemma later_calls_status:
  "shippingStatus (fst (run 0 later_calls (fst (snd (save picked_up ticking)), ticking))) =
     ''Shipped''"
  by code_simp

text \<open>
  The first save after the pick-up sets the ship date 1000; after going to In Transit and
  back to Shipped, with two more saves, it is still 1000.
\<close>

theorem shippedAt_set_once_witness:
  "validate picked_up \<and> modified_shippingStatus picked_up \<and>
   shippingStatus picked_up = ''Shipped'' \<and> shippedAt picked_up = None \<and>
   shippedAt (fst (snd (save picked_up ticking))) = Some 1000 \<and>
   shippedAt (fst (run 0 later_calls (fst (snd (save picked_up ticking)), ticking))) = Some 1000 \<and>
   shippingStatus (fst (run 0 later_calls (fst (snd (save picked_up ticking)), ticking))) =
     ''Shipped''"
proof -
  have p: "modified_shippingStatus picked_up \<and> shippingStatus picked_up = ''Shipped'' \<and>
           shippedAt picked_up = None"
    by (simp add: picked_up_eval pending_shipment_def)
  have a: "shippedAt (fst (snd (save picked_up ticking))) = Some 1000"
    using shippedAt_set_once [of picked_up ticking] validate_picked_up p
    by (simp add: ticking_def)
  show ?thesis
    using validate_picked_up p a later_calls_status
      shippedAt_set_once [of "fst (snd (save picked_up ticking))" ticking 1000 0 later_calls]
    by simp
qed


section \<open>calculateEstimatedDelivery (C3 and C10)\<close>

text \<open>The walk under a whole-number bound: the days it counts and where it ends.\<close>

lemma days_after_Suc: "days_after d (Suc k) = (d + DAY) # days_after (d + DAY) k"
proof -
  have "[1..<Suc (Suc k)] = 1 # map Suc [1..<Suc k]"
    by (simp add: map_Suc_upt upt_conv_Cons del: upt_Suc)
  then show ?thesis
    by (simp add: days_after_def comp_def algebra_simps del: upt_Suc)
qed

lemma days_after_0: "days_after d 0 = []"
  by (simp add: days_after_def)

lemma delivery_walk_counts:
  "\<exists>k. delivery_walk tz sat m d n = d + int k * DAY \<and>
       length (filter (counted_day tz sat) (days_after d k)) = nat (m - n) \<and>
       (k = 0 \<or> counted_day tz sat (delivery_walk tz sat m d n))"
proof (induction tz sat m d n rule: delivery_walk.induct)
  case (1 tz sat m d n)
  show ?case
  proof (cases "n < m")
    case False
    then have "delivery_walk tz sat m d n = d"
      by (subst delivery_walk.simps) simp
    then show ?thesis
      using False by (intro exI [of _ 0]) (simp add: days_after_0)
  next
    case True
    show ?thesis
    proof (cases "counted_day tz sat (d + DAY)")
      case c: True
      have eq: "delivery_walk tz sat m d n = delivery_walk tz sat m (d + DAY) (n + 1)"
        using True c by (subst delivery_walk.simps) (simp add: Let_def)
      obtain k where k: "delivery_walk tz sat m (d + DAY) (n + 1) = d + DAY + int k * DAY"
        "length (filter (counted_day tz sat) (days_after (d + DAY) k)) = nat (m - (n + 1))"
        "k = 0 \<or> counted_day tz sat (delivery_walk tz sat m (d + DAY) (n + 1))"
        using "1.IH"(1) [OF True refl c] by blast
      have last: "counted_day tz sat (delivery_walk tz sat m (d + DAY) (n + 1))"
        using k(1,3) c by auto
      have cnt: "length (filter (counted_day tz sat) (days_after d (Suc k))) = nat (m - n)"
        using k(2) c True by (simp add: days_after_Suc)
      show ?thesis
        unfolding eq using k(1) cnt last
        by (intro exI [of _ "Suc k"]) (simp add: algebra_simps)
    next
      case c: False
      have eq: "delivery_walk tz sat m d n = delivery_walk tz sat m (d + DAY) n"
        using True c by (subst delivery_walk.simps) (simp add: Let_def)
      obtain k where k: "delivery_walk tz sat m (d + DAY) n = d + DAY + int k * DAY"
        "length (filter (counted_day tz sat) (days_after (d + DAY) k)) = nat (m - n)"
        "k = 0 \<or> counted_day tz sat (delivery_walk tz sat m (d + DAY) n)"
        using "1.IH"(2) [OF True refl c] by blast
      have "k \<noteq> 0"
      proof
        assume "k = 0"
        then show False using k(2) True by (simp add: days_after_0)
      qed
      then have last: "counted_day tz sat (delivery_walk tz sat m (d + DAY) n)"
        using k(3) by simp
      have cnt: "length (filter (counted_day tz sat) (days_after d (Suc k))) = nat (m - n)"
        using k(2) c by (simp add: days_after_Suc)
      show ?thesis
        unfolding eq using k(1) cnt last
        by (intro exI [of _ "Suc k"]) (simp add: algebra_simps)
    qed
  qed
qed

lemma delivery_walk_reached:
  "reached_by_counting tz sat t (nat m) (delivery_walk tz sat m t 0)"
proof -
  obtain k where k: "delivery_walk tz sat m t 0 = t + int k * DAY"
    "length (filter (counted_day tz sat) (days_after t k)) = nat (m - 0)"
    "k = 0 \<or> counted_day tz sat (delivery_walk tz sat m t 0)"
    using delivery_walk_counts [of tz sat m t 0] by blast
  have "0 < DAY" by (simp add: DAY_def)
  then have d: "nat ((t + int k * DAY - t) div DAY) = k"
    by simp
  show ?thesis
    unfolding reached_by_counting_def k(1) d Let_def
    using k(2,3) \<open>0 < DAY\<close> by (simp add: k(1))
qed






lemma walk_done: "\<not> n < m \<Longrightarrow> delivery_walk tz sat m d n = d"
  by (subst delivery_walk.simps) simp



text \<open>
  The loop itself: under a finite bound it returns what the walk computes under the least
  whole number not below the bound, under \<^verbatim>\<open>-Infinity\<close> it returns at once, and under
  \<^verbatim>\<open>Infinity\<close> it does not return.
\<close>

lemma delivery_loop_Finite:
  "m = \<lceil>q\<rceil> \<Longrightarrow>
   delivery_loop tz sat (Finite q) d n = Some (delivery_walk tz sat m d n)"
proof (induction tz sat m d n rule: delivery_walk.induct)
  case (1 tz sat m d n)
  have lt: "less_number n (Finite q) \<longleftrightarrow> n < m"
    using "1.prems" by (simp add: less_number_def less_ceiling_iff)
  show ?case
  proof (cases "n < m")
    case False
    then show ?thesis
      using lt by (subst delivery_loop.simps, subst delivery_walk.simps) simp
  next
    case True
    show ?thesis
    proof (cases "counted_day tz sat (d + DAY)")
      case c: True
      have "delivery_loop tz sat (Finite q) (d + DAY) (n + 1) =
              Some (delivery_walk tz sat m (d + DAY) (n + 1))"
        using "1.IH"(1) [OF True refl c "1.prems"] .
      then show ?thesis
        using True c lt
        by (subst delivery_loop.simps, subst delivery_walk.simps) (simp add: Let_def)
    next
      case c: False
      have "delivery_loop tz sat (Finite q) (d + DAY) n =
              Some (delivery_walk tz sat m (d + DAY) n)"
        using "1.IH"(2) [OF True refl c "1.prems"] .
      then show ?thesis
        using True c lt
        by (subst delivery_loop.simps, subst delivery_walk.simps) (simp add: Let_def)
    qed
  qed
qed

lemma delivery_loop_MinusInfinity: "delivery_loop tz sat MinusInfinity d n = Some d"
  by (subst delivery_loop.simps) (simp add: less_number_def)



lemma delivery_loop_walk:
  "m \<noteq> PlusInfinity \<Longrightarrow>
   delivery_loop tz sat m d 0 =
     Some (delivery_walk tz sat (case m of Finite q \<Rightarrow> \<lceil>q\<rceil> | _ \<Rightarrow> 0) d 0)"
  by (cases m) (simp_all add: delivery_loop_Finite delivery_loop_MinusInfinity walk_done)

text \<open>The bound that line 207 hands to the loop.\<close>

lemma calculateEstimatedDelivery_unfold:
  "shippedAt s = Some t \<Longrightarrow>
   calculateEstimatedDelivery tz s =
     (case delivery_loop tz (saturdayDelivery s)
             (case tf_max (deliveryTimeframe s) of
                None \<Rightarrow> Finite 7
              | Some m \<Rightarrow> if m = Finite 0 then Finite 7 else m) t 0 of
        None \<Rightarrow> None
      | Some d \<Rightarrow> Some (Some d, s\<lparr>estimatedDeliveryDate := Some d\<rparr>))"
  by (simp add: calculateEstimatedDelivery_def nested_truthy_def Let_def)

lemma calculateEstimatedDelivery_walk:
  assumes "shippedAt s = Some t" and "tf_max (deliveryTimeframe s) \<noteq> Some PlusInfinity"
  shows "calculateEstimatedDelivery tz s =
     Some (Some (delivery_walk tz (saturdayDelivery s)
                   (case tf_max (deliveryTimeframe s) of
                      None \<Rightarrow> 7
                    | Some m \<Rightarrow> (case m of Finite q \<Rightarrow> if q = 0 then 7 else \<lceil>q\<rceil> | _ \<Rightarrow> 0)) t 0),
           s\<lparr>estimatedDeliveryDate :=
               Some (delivery_walk tz (saturdayDelivery s)
                       (case tf_max (deliveryTimeframe s) of
                          None \<Rightarrow> 7
                        | Some m \<Rightarrow> (case m of Finite q \<Rightarrow> if q = 0 then 7 else \<lceil>q\<rceil> | _ \<Rightarrow> 0))
                       t 0)\<rparr>)"
proof (cases "tf_max (deliveryTimeframe s)")
  case None
  then show ?thesis
    by (simp add: calculateEstimatedDelivery_unfold [OF assms(1)] delivery_loop_walk)
next
  case (Some m)
  then have "m \<noteq> PlusInfinity"
    using assms(2) by simp
  then show ?thesis
    using Some
    by (cases m) (simp_all add: calculateEstimatedDelivery_unfold [OF assms(1)] delivery_loop_walk)
qed


lemma zero_max_eval:
  "delivery_walk 0 False 7 monday 0 = monday + 9 * DAY"
  by code_simp





text \<open>
  What the code does with a ship date and no time-frame at all. The nested path
  \<^verbatim>\<open>deliveryTimeframe\<close> reads as an object even then, so the second test of line 204 does
  not hold and the call goes on with the default of 7 days: it returns a date, not
  \<^verbatim>\<open>null\<close>. For a shipment shipped on Monday 1 January 2024 that date is nine days later.
\<close>

lemma calculateEstimatedDelivery_without_timeframe:
  assumes "shippedAt s = Some t"
      and "tf_min (deliveryTimeframe s) = None" and "tf_max (deliveryTimeframe s) = None"
  shows "\<exists>r. calculateEstimatedDelivery tz s =
               Some (Some r, s\<lparr>estimatedDeliveryDate := Some r\<rparr>) \<and>
             reached_by_counting tz (saturdayDelivery s) t 7 r"
proof -
  have "calculateEstimatedDelivery tz s =
      Some (Some (delivery_walk tz (saturdayDelivery s) 7 t 0),
            s\<lparr>estimatedDeliveryDate := Some (delivery_walk tz (saturdayDelivery s) 7 t 0)\<rparr>)"
    using calculateEstimatedDelivery_walk [OF assms(1), of tz] assms(3) by simp
  moreover have "reached_by_counting tz (saturdayDelivery s) t 7
      (delivery_walk tz (saturdayDelivery s) 7 t 0)"
    using delivery_walk_reached [of tz "saturdayDelivery s" t 7] by simp
  ultimately show ?thesis
    by blast
qed

lemma calculateEstimatedDelivery_without_timeframe_example:
  "shippedAt no_timeframe_shipment = Some monday \<and>
   deliveryTimeframe no_timeframe_shipment = \<lparr>tf_min = None, tf_max = None\<rparr> \<and>
   map_option fst (calculateEstimatedDelivery 0 no_timeframe_shipment) =
     Some (Some 1704880800000)"
proof -
  have a: "shippedAt no_timeframe_shipment = Some monday"
          "deliveryTimeframe no_timeframe_shipment = \<lparr>tf_min = None, tf_max = None\<rparr>"
          "saturdayDelivery no_timeframe_shipment = False"
    by (simp_all add: no_timeframe_shipment_def pending_shipment_def)
  have "map_option fst (calculateEstimatedDelivery 0 no_timeframe_shipment) =
     Some (Some (monday + 9 * DAY))"
    using calculateEstimatedDelivery_walk [OF a(1), of 0] a(2,3) by (simp add: zero_max_eval)
  then show ?thesis
    using a by (simp add: monday_def DAY_def)
qed

text \<open>
  Claim C10: for every shipment with a ship date and a time-frame whose maximum is 0, the
  estimate is the date reached by counting 7 days, the same as with the maximum 7, and it
  is strictly after the ship date.
\<close>

theorem zero_max_counts_seven:
  "shippedAt s = Some t \<and> tf_max (deliveryTimeframe s) = Some (Finite 0) \<longrightarrow>
     (\<exists>r. calculateEstimatedDelivery tz s =
             Some (Some r, s\<lparr>estimatedDeliveryDate := Some r\<rparr>) \<and>
          reached_by_counting tz (saturdayDelivery s) t 7 r \<and>
          t < r \<and>
          map_option fst
            (calculateEstimatedDelivery tz
               (s\<lparr>deliveryTimeframe := (deliveryTimeframe s)\<lparr>tf_max := Some (Finite 7)\<rparr>\<rparr>))
            = Some (Some r))"
proof
  assume a: "shippedAt s = Some t \<and> tf_max (deliveryTimeframe s) = Some (Finite 0)"
  let ?r = "delivery_walk tz (saturdayDelivery s) 7 t 0"
  let ?s7 = "s\<lparr>deliveryTimeframe := (deliveryTimeframe s)\<lparr>tf_max := Some (Finite 7)\<rparr>\<rparr>"
  have u: "calculateEstimatedDelivery tz s = Some (Some ?r, s\<lparr>estimatedDeliveryDate := Some ?r\<rparr>)"
    using a calculateEstimatedDelivery_walk [of s t tz] by simp
  have c: "reached_by_counting tz (saturdayDelivery s) t 7 ?r"
    using delivery_walk_reached [of tz "saturdayDelivery s" t 7] by simp
  obtain k where k: "?r = t + int k * DAY"
    "length (filter (counted_day tz (saturdayDelivery s)) (days_after t k)) = nat (7 - 0)"
    using delivery_walk_counts [of tz "saturdayDelivery s" 7 t 0] by blast
  have "k \<noteq> 0"
  proof
    assume "k = 0"
    then show False using k(2) by (simp add: days_after_0)
  qed
  then have lt: "t < ?r"
    unfolding k(1) by (simp add: DAY_def)
  have "shippedAt ?s7 = Some t" "tf_max (deliveryTimeframe ?s7) \<noteq> Some PlusInfinity"
    using a by simp_all
  then have s7: "map_option fst (calculateEstimatedDelivery tz ?s7) = Some (Some ?r)"
    using calculateEstimatedDelivery_walk [of ?s7 t tz] by simp
  show "\<exists>r. calculateEstimatedDelivery tz s =
             Some (Some r, s\<lparr>estimatedDeliveryDate := Some r\<rparr>) \<and>
          reached_by_counting tz (saturdayDelivery s) t 7 r \<and>
          t < r \<and>
          map_option fst (calculateEstimatedDelivery tz ?s7) = Some (Some r)"
    using u c lt s7 by blast
qed

text \<open>Shipped on Monday 1 January 2024 with maximum 0: estimated nine days later.\<close>

theorem zero_max_counts_seven_witness:
  "tf_max (deliveryTimeframe zero_max_shipment) = Some (Finite 0) \<and>
   map_option fst (calculateEstimatedDelivery 0 zero_max_shipment) =
     Some (Some (monday + 9 * DAY)) \<and>
   monday < monday + 9 * DAY \<and>
   reached_by_counting 0 False monday 7 (monday + 9 * DAY)"
proof -
  have a: "shippedAt zero_max_shipment = Some monday"
          "tf_max (deliveryTimeframe zero_max_shipment) = Some (Finite 0)"
          "saturdayDelivery zero_max_shipment = False"
    by (simp_all add: zero_max_shipment_def pending_shipment_def)
  obtain r where r:
    "calculateEstimatedDelivery 0 zero_max_shipment =
       Some (Some r, zero_max_shipment\<lparr>estimatedDeliveryDate := Some r\<rparr>)"
    "reached_by_counting 0 (saturdayDelivery zero_max_shipment) monday 7 r" "monday < r"
    using zero_max_counts_seven [of zero_max_shipment monday 0] a
    by auto
  have "calculateEstimatedDelivery 0 zero_max_shipment =
      Some (Some (monday + 9 * DAY),
            zero_max_shipment\<lparr>estimatedDeliveryDate := Some (monday + 9 * DAY)\<rparr>)"
    using calculateEstimatedDelivery_walk [of zero_max_shipment monday 0] a
    by (simp add: zero_max_eval)
  then have "r = monday + 9 * DAY"
    using r(1) by simp
  then show ?thesis
    using r a by simp
qed

end
